theory Spec2Isabelle
  imports Complex_Main "HOL-Library.Word" "HOL-Library.Monad_Syntax"
begin

unbundle bit_operations_syntax

section \<open>Machine types\<close>

text \<open>
  The driver is C for a 32-bit big-endian PowerPC. Unsigned integers are words of their
  width; the signed 16-bit fields of the parameter block are kept as their 16-bit
  patterns (read with \<open>sint\<close>). The \<open>s32\<close> result of the public functions is an \<open>int\<close>.
\<close>

type_synonym u8 = "8 word"
type_synonym u16 = "16 word"
type_synonym u32 = "32 word"

subsection \<open>Single precision\<close>

text \<open>
  An \<open>f32\<close> is a finite number, given by the rational it denotes, an infinity (the flag
  is the sign bit) or a NaN. Every arithmetic operation computes the exact result and
  rounds it to the nearest number with a 24-bit significand, ties to even, with the
  gradual underflow of binary32 (unit in the last place never below \<open>2\<^sup>-\<^sup>1\<^sup>4\<^sup>9\<close>) and
  overflow to an infinity. A comparison with a NaN operand is false. Not represented:
  the sign of zero (a non-zero number divided by zero gives the infinity of the sign of
  the numerator) and the payload of a NaN.
\<close>

datatype f32 = Finite rat | Infinity bool | NaN

definition pow2 :: "int \<Rightarrow> rat" where
  "pow2 e = (if 0 \<le> e then 2 ^ nat e else 1 / 2 ^ nat (- e))"

definition round_half_even :: "rat \<Rightarrow> int" where
  "round_half_even x =
     (let f = \<lfloor>x\<rfloor>; d = x - of_int f
      in if d < 1 / 2 then f else if 1 / 2 < d then f + 1 else if even f then f else f + 1)"

function bit_length :: "int \<Rightarrow> int" where
  "bit_length n = (if n \<le> 0 then 0 else 1 + bit_length (n div 2))"
  by pat_completeness auto
termination
  by (relation "measure nat") auto

definition f32_ulp_exponent :: "rat \<Rightarrow> int" where
  "f32_ulp_exponent x = max (- 149) (bit_length \<lfloor>\<bar>x\<bar> * 2 ^ 149\<rfloor> - 173)"

definition f32_round :: "rat \<Rightarrow> f32" where
  "f32_round x =
     (let e = f32_ulp_exponent x;
          r = of_int (round_half_even (x / pow2 e)) * pow2 e
      in if 2 ^ 128 \<le> \<bar>r\<bar> then Infinity (r < 0) else Finite r)"

fun f32_mul :: "f32 \<Rightarrow> f32 \<Rightarrow> f32" where
  "f32_mul NaN b = NaN"
| "f32_mul a NaN = NaN"
| "f32_mul (Finite a) (Finite b) = f32_round (a * b)"
| "f32_mul (Finite a) (Infinity n) = (if a = 0 then NaN else Infinity (n \<noteq> (a < 0)))"
| "f32_mul (Infinity m) (Finite b) = (if b = 0 then NaN else Infinity (m \<noteq> (b < 0)))"
| "f32_mul (Infinity m) (Infinity n) = Infinity (m \<noteq> n)"

fun f32_div :: "f32 \<Rightarrow> f32 \<Rightarrow> f32" where
  "f32_div NaN b = NaN"
| "f32_div a NaN = NaN"
| "f32_div (Finite a) (Finite b) =
     (if b = 0 then (if a = 0 then NaN else Infinity (a < 0)) else f32_round (a / b))"
| "f32_div (Finite a) (Infinity n) = Finite 0"
| "f32_div (Infinity m) (Finite b) = Infinity (m \<noteq> (b < 0))"
| "f32_div (Infinity m) (Infinity n) = NaN"

fun f32_less :: "f32 \<Rightarrow> f32 \<Rightarrow> bool" where
  "f32_less NaN b = False"
| "f32_less a NaN = False"
| "f32_less (Finite a) (Finite b) = (a < b)"
| "f32_less (Finite a) (Infinity n) = (\<not> n)"
| "f32_less (Infinity m) (Finite b) = m"
| "f32_less (Infinity m) (Infinity n) = (m \<and> \<not> n)"

definition f32_of_int :: "int \<Rightarrow> f32" where
  "f32_of_int n = f32_round (of_int n)"

definition f32_of_u32 :: "u32 \<Rightarrow> f32" where
  "f32_of_u32 w = f32_of_int (uint w)"

text \<open>
  The two conversions to an integer. Of a value beyond the range of the 32-bit \<open>long\<close>,
  of an infinity and of a NaN the C standard does not say the result; the model takes
  the saturated value that the conversion instruction of the PowerPC gives.
\<close>

definition saturate_long :: "int \<Rightarrow> int" where
  "saturate_long n = max (- (2 ^ 31)) (min (2 ^ 31 - 1) n)"

fun lrintf :: "f32 \<Rightarrow> int" where
  \<comment> \<open>rounds in the current (default) rounding mode, to nearest even\<close>
  "lrintf (Finite x) = saturate_long (round_half_even x)"
| "lrintf (Infinity n) = (if n then - (2 ^ 31) else 2 ^ 31 - 1)"
| "lrintf NaN = - (2 ^ 31)"

fun f32_to_int :: "f32 \<Rightarrow> int" where
  \<comment> \<open>the C conversion of a floating value to an integer type truncates towards zero\<close>
  "f32_to_int (Finite x) = saturate_long (if 0 \<le> x then \<lfloor>x\<rfloor> else \<lceil>x\<rceil>)"
| "f32_to_int (Infinity n) = (if n then - (2 ^ 31) else 2 ^ 31 - 1)"
| "f32_to_int NaN = - (2 ^ 31)"

subsection \<open>Conversion helpers\<close>

definition HIGH :: "u32 \<Rightarrow> u16" where
  "HIGH x = ucast (drop_bit 16 (x AND 0xFFFF0000))"

definition LOW :: "u32 \<Rightarrow> u16" where
  "LOW x = ucast (x AND 0x0000FFFF)"

definition SAMPLES_TO_NIBBLES :: "u32 \<Rightarrow> u32" where
  "SAMPLES_TO_NIBBLES x = ((x div 14) * 16) + (x mod 14) + 2"

section \<open>Constants of the library\<close>

definition ANSND_MAX_VOICES :: nat where "ANSND_MAX_VOICES = 48"

definition ANSND_SOUND_BUFFER_SIZE :: nat where "ANSND_SOUND_BUFFER_SIZE = 960"

text \<open>
  The build targets one of two consoles. What the driver takes from the platform
  library and not from this repository is a parameter of the model: on \<open>HW_DOL\<close> the
  base address and the size of the auxiliary RAM (\<open>AR_GetBaseAddress\<close>, \<open>AR_GetSize\<close>),
  on \<open>HW_RVL\<close> the mask \<open>SYS_BASE_CACHED\<close>.
\<close>

datatype hardware = HW_DOL (ar_base: u32) (ar_size: u32) | HW_RVL (sys_base_cached: u32)

definition ANSND_DSP_FREQ_32KHZ :: "hardware \<Rightarrow> f32" where
  "ANSND_DSP_FREQ_32KHZ hw =
     (case hw of HW_DOL _ _ \<Rightarrow> f32_div (Finite 54000000) (Finite 1686)
      | HW_RVL _ \<Rightarrow> f32_div (Finite 54000000) (Finite (3375 / 2)))"

definition ANSND_DSP_FREQ_48KHZ :: "hardware \<Rightarrow> f32" where
  "ANSND_DSP_FREQ_48KHZ hw =
     (case hw of HW_DOL _ _ \<Rightarrow> f32_div (Finite 54000000) (Finite 1124)
      | HW_RVL _ \<Rightarrow> f32_div (Finite 54000000) (Finite 1125))"

definition ANSND_MAX_SAMPLERATE_32KHZ :: "hardware \<Rightarrow> f32" where
  "ANSND_MAX_SAMPLERATE_32KHZ hw = f32_mul (ANSND_DSP_FREQ_32KHZ hw) (Finite 4)"

definition ANSND_MAX_SAMPLERATE_48KHZ :: "hardware \<Rightarrow> f32" where
  "ANSND_MAX_SAMPLERATE_48KHZ hw = f32_mul (ANSND_DSP_FREQ_48KHZ hw) (Finite 4)"

definition ANSND_OUTPUT_SAMPLERATE_32KHZ :: u8 where "ANSND_OUTPUT_SAMPLERATE_32KHZ = 0"
definition ANSND_OUTPUT_SAMPLERATE_48KHZ :: u8 where "ANSND_OUTPUT_SAMPLERATE_48KHZ = 1"

definition ANSND_VOICE_STATE_ERROR :: int where "ANSND_VOICE_STATE_ERROR = - 1"
definition ANSND_VOICE_STATE_STOPPED :: int where "ANSND_VOICE_STATE_STOPPED = 0"
definition ANSND_VOICE_STATE_FINISHED :: int where "ANSND_VOICE_STATE_FINISHED = 1"
definition ANSND_VOICE_STATE_PAUSED :: int where "ANSND_VOICE_STATE_PAUSED = 2"
definition ANSND_VOICE_STATE_RUNNING :: int where "ANSND_VOICE_STATE_RUNNING = 3"
definition ANSND_VOICE_STATE_ERASED :: int where "ANSND_VOICE_STATE_ERASED = 4"

definition ANSND_VOICE_PCM_FORMAT_UNSET :: u8 where "ANSND_VOICE_PCM_FORMAT_UNSET = 0"
definition ANSND_VOICE_PCM_FORMAT_SIGNED_8_PCM :: u8 where
  "ANSND_VOICE_PCM_FORMAT_SIGNED_8_PCM = 1"
definition ANSND_VOICE_PCM_FORMAT_SIGNED_16_PCM :: u8 where
  "ANSND_VOICE_PCM_FORMAT_SIGNED_16_PCM = 2"

definition ANSND_ERROR_OK :: int where "ANSND_ERROR_OK = 0"
definition ANSND_ERROR_NOT_INITIALIZED :: int where "ANSND_ERROR_NOT_INITIALIZED = - 1"
definition ANSND_ERROR_INVALID_CONFIGURATION :: int where
  "ANSND_ERROR_INVALID_CONFIGURATION = - 2"
definition ANSND_ERROR_INVALID_INPUT :: int where "ANSND_ERROR_INVALID_INPUT = - 3"
definition ANSND_ERROR_INVALID_SAMPLERATE :: int where "ANSND_ERROR_INVALID_SAMPLERATE = - 4"
definition ANSND_ERROR_INVALID_MEMORY :: int where "ANSND_ERROR_INVALID_MEMORY = - 5"
definition ANSND_ERROR_ALL_VOICES_USED :: int where "ANSND_ERROR_ALL_VOICES_USED = - 6"
definition ANSND_ERROR_VOICE_ID_NOT_ALLOCATED :: int where
  "ANSND_ERROR_VOICE_ID_NOT_ALLOCATED = - 7"
definition ANSND_ERROR_VOICE_NOT_CONFIGURED :: int where
  "ANSND_ERROR_VOICE_NOT_CONFIGURED = - 8"
definition ANSND_ERROR_VOICE_NOT_INITIALIZED :: int where
  "ANSND_ERROR_VOICE_NOT_INITIALIZED = - 9"
definition ANSND_ERROR_VOICE_RUNNING :: int where "ANSND_ERROR_VOICE_RUNNING = - 10"
definition ANSND_ERROR_VOICE_ALREADY_LINKED :: int where
  "ANSND_ERROR_VOICE_ALREADY_LINKED = - 11"
definition ANSND_ERROR_VOICE_NOT_LINKED :: int where "ANSND_ERROR_VOICE_NOT_LINKED = - 12"
definition ANSND_ERROR_DSP_STALLED :: int where "ANSND_ERROR_DSP_STALLED = - 13"

subsection \<open>Values for the accelerator, mailbox commands, voice flags\<close>

definition DSP_ACCL_FMT_ADPCM :: u16 where "DSP_ACCL_FMT_ADPCM = 0x0000"
definition DSP_ACCL_FMT_SIGNED_8BIT :: u16 where "DSP_ACCL_FMT_SIGNED_8BIT = 0x0019"
definition DSP_ACCL_FMT_SIGNED_16BIT :: u16 where "DSP_ACCL_FMT_SIGNED_16BIT = 0x000A"
definition DSP_ACCL_GAIN_8BIT :: u16 where "DSP_ACCL_GAIN_8BIT = 0x0100"
definition DSP_ACCL_GAIN_16BIT :: u16 where "DSP_ACCL_GAIN_16BIT = 0x0800"

definition DSP_MAIL_COMMAND :: u32 where "DSP_MAIL_COMMAND = 0xFACE0000"
definition DSP_MAIL_END :: u32 where "DSP_MAIL_END = 0x0000DEAD"
definition DSP_MAIL_NEXT :: u32 where "DSP_MAIL_NEXT = 0x00001111"
definition DSP_MAIL_PREPARE :: u32 where "DSP_MAIL_PREPARE = 0x00002222"
definition DSP_MAIL_MM_LOCATION :: u32 where "DSP_MAIL_MM_LOCATION = 0x00003333"
definition DSP_MAIL_RESTART :: u32 where "DSP_MAIL_RESTART = 0x00004444"
definition DSP_MAIL_YIELD :: u32 where "DSP_MAIL_YIELD = 0x00005555"

definition VOICE_FLAG_PITCH_CHANGE :: u16 where "VOICE_FLAG_PITCH_CHANGE = 0x2000"
definition VOICE_FLAG_CONFIGURED :: u16 where "VOICE_FLAG_CONFIGURED = 0x1000"
definition VOICE_FLAG_USED :: u16 where "VOICE_FLAG_USED = 0x0800"
definition VOICE_FLAG_UPDATED :: u16 where "VOICE_FLAG_UPDATED = 0x0400"
definition VOICE_FLAG_INITIALIZED :: u16 where "VOICE_FLAG_INITIALIZED = 0x0200"
definition VOICE_FLAG_ERASED :: u16 where "VOICE_FLAG_ERASED = 0x0100"
definition VOICE_FLAG_RUNNING :: u16 where "VOICE_FLAG_RUNNING = 0x0080"
definition VOICE_FLAG_FINISHED :: u16 where "VOICE_FLAG_FINISHED = 0x0040"
definition VOICE_FLAG_PAUSED :: u16 where "VOICE_FLAG_PAUSED = 0x0020"
definition VOICE_FLAG_DELAY :: u16 where "VOICE_FLAG_DELAY = 0x0010"
definition VOICE_FLAG_STREAMING :: u16 where "VOICE_FLAG_STREAMING = 0x0008"
definition VOICE_FLAG_LOOPED :: u16 where "VOICE_FLAG_LOOPED = 0x0004"
definition VOICE_FLAG_ADPCM :: u16 where "VOICE_FLAG_ADPCM = 0x0002"
definition VOICE_FLAG_STEREO :: u16 where "VOICE_FLAG_STEREO = 0x0001"

definition has_flag :: "u16 \<Rightarrow> u16 \<Rightarrow> bool" where
  \<comment> \<open>the C test \<open>flags & mask\<close>\<close>
  "has_flag fs m = (fs AND m \<noteq> 0)"

section \<open>Data model\<close>

text \<open>
  The parameter block is the 128-byte record the coprocessor reads and writes, here as
  its 16-bit words. The fields of the block carry the prefix \<open>pb_\<close>. Its two unions
  are kept as one storage each: \<open>pcm.sample_buffer_2\<close> and
  \<open>adpcm.decode_coefficients\<close> are the same sixteen words
  (\<open>pb_sample_buffer_2\<close>), and the looping view lies over the streaming view at the
  offsets the declaration gives, so the four functions \<open>pb_loop_\<dots>\<close> below read the
  words 0x3B to 0x3F that \<open>next_buffer_current_high\<close> to
  \<open>next_buffer_sample_history_2\<close> name.
\<close>

record ansnd_parameter_block_t =
  pb_sample_buffer :: "u16 list"
  pb_sample_buffer_2 :: "u16 list"
  pb_right_volume :: u16
  pb_left_volume :: u16
  pb_relative_frequency_high :: u16
  pb_relative_frequency_low :: u16
  pb_count_low :: u16
  pb_delay :: u16
  pb_flags :: u16
  pb_sample_buffer_index :: u16
  pb_sample_buffer_wrapping :: u16
  pb_filter_step :: u16
  pb_filter_step_512 :: u16
  pb_correction_factor :: u16
  pb_accelerator_format :: u16
  pb_accelerator_start_high :: u16
  pb_accelerator_start_low :: u16
  pb_accelerator_end_high :: u16
  pb_accelerator_end_low :: u16
  pb_accelerator_current_high :: u16
  pb_accelerator_current_low :: u16
  pb_initial_predictor_scale :: u16
  pb_initial_sample_history_1 :: u16
  pb_initial_sample_history_2 :: u16
  pb_accelerator_gain :: u16
  pb_next_buffer_start_high :: u16
  pb_next_buffer_start_low :: u16
  pb_next_buffer_end_high :: u16
  pb_next_buffer_end_low :: u16
  pb_next_buffer_current_high :: u16
  pb_next_buffer_current_low :: u16
  pb_next_buffer_predictor_scale :: u16
  pb_next_buffer_sample_history_1 :: u16
  pb_next_buffer_sample_history_2 :: u16

definition zero_parameter_block :: ansnd_parameter_block_t where
  \<comment> \<open>\<open>memset(parameter_block, 0, PARAMETER_BLOCK_STRUCT_SIZE)\<close>\<close>
  "zero_parameter_block =
     \<lparr>pb_sample_buffer = replicate 16 0, pb_sample_buffer_2 = replicate 16 0,
      pb_right_volume = 0, pb_left_volume = 0, pb_relative_frequency_high = 0,
      pb_relative_frequency_low = 0, pb_count_low = 0, pb_delay = 0, pb_flags = 0,
      pb_sample_buffer_index = 0, pb_sample_buffer_wrapping = 0, pb_filter_step = 0,
      pb_filter_step_512 = 0, pb_correction_factor = 0, pb_accelerator_format = 0,
      pb_accelerator_start_high = 0, pb_accelerator_start_low = 0,
      pb_accelerator_end_high = 0, pb_accelerator_end_low = 0,
      pb_accelerator_current_high = 0, pb_accelerator_current_low = 0,
      pb_initial_predictor_scale = 0, pb_initial_sample_history_1 = 0,
      pb_initial_sample_history_2 = 0, pb_accelerator_gain = 0,
      pb_next_buffer_start_high = 0, pb_next_buffer_start_low = 0,
      pb_next_buffer_end_high = 0, pb_next_buffer_end_low = 0,
      pb_next_buffer_current_high = 0, pb_next_buffer_current_low = 0,
      pb_next_buffer_predictor_scale = 0, pb_next_buffer_sample_history_1 = 0,
      pb_next_buffer_sample_history_2 = 0\<rparr>"

text \<open>
  The voice descriptor. Pointers into the two static arrays are indices:
  \<open>parameter_block\<close> is \<open>None\<close> for \<open>NULL\<close> and \<open>Some k\<close> for
  \<open>&parameter_block_base[k]\<close>; \<open>linked_voice\<close> is \<open>Some j\<close> for \<open>&ansnd_voices[j]\<close>.
  Function pointers and the user pointer are addresses, 0 for \<open>NULL\<close>.

  The union of the descriptor is stored under the names of its streaming view. On the
  big-endian target the looping view reads the same bytes: \<open>loop_start\<close> is
  \<open>next_buffer_start\<close>, \<open>loop_end\<close> is \<open>next_buffer_end\<close>, \<open>loop_predictor_scale\<close>
  and \<open>loop_sample_history_1\<close> are the high and the low half of
  \<open>next_buffer_first\<close>, and \<open>loop_sample_history_2\<close> is
  \<open>next_buffer_predictor_scale\<close>.
\<close>

record ansnd_voice_t =
  samplerate :: u32
  pitch :: f32
  delay :: u32
  flags :: u16
  left_volume :: f32
  right_volume :: f32
  decode_coefficients :: "u16 list"
  accelerator_format :: u16
  accelerator_gain :: u16
  ram_buffer_start :: u32
  ram_buffer_end :: u32
  ram_buffer_first :: u32
  initial_predictor_scale :: u16
  initial_sample_history_1 :: u16
  initial_sample_history_2 :: u16
  next_buffer_start :: u32
  next_buffer_end :: u32
  next_buffer_first :: u32
  next_buffer_predictor_scale :: u16
  next_buffer_sample_history_1 :: u16
  next_buffer_sample_history_2 :: u16
  parameter_block :: "nat option"
  linked_voice :: "nat option"
  voice_callback :: u32
  stream_callback :: u32
  user_pointer :: u32

definition zero_voice :: ansnd_voice_t where
  \<comment> \<open>\<open>memset(voice, 0, sizeof(ansnd_voice_t))\<close>\<close>
  "zero_voice =
     \<lparr>samplerate = 0, pitch = Finite 0, delay = 0, flags = 0, left_volume = Finite 0,
      right_volume = Finite 0,
      decode_coefficients = replicate 16 0, accelerator_format = 0, accelerator_gain = 0,
      ram_buffer_start = 0, ram_buffer_end = 0, ram_buffer_first = 0,
      initial_predictor_scale = 0, initial_sample_history_1 = 0,
      initial_sample_history_2 = 0, next_buffer_start = 0, next_buffer_end = 0,
      next_buffer_first = 0, next_buffer_predictor_scale = 0,
      next_buffer_sample_history_1 = 0, next_buffer_sample_history_2 = 0,
      parameter_block = None, linked_voice = None, voice_callback = 0, stream_callback = 0,
      user_pointer = 0\<rparr>"

definition loop_start :: "ansnd_voice_t \<Rightarrow> u32" where
  "loop_start v = next_buffer_start v"

definition loop_end :: "ansnd_voice_t \<Rightarrow> u32" where
  "loop_end v = next_buffer_end v"

definition loop_predictor_scale :: "ansnd_voice_t \<Rightarrow> u16" where
  "loop_predictor_scale v = ucast (drop_bit 16 (next_buffer_first v))"

definition loop_sample_history_1 :: "ansnd_voice_t \<Rightarrow> u16" where
  "loop_sample_history_1 v = ucast (next_buffer_first v)"

definition loop_sample_history_2 :: "ansnd_voice_t \<Rightarrow> u16" where
  "loop_sample_history_2 v = next_buffer_predictor_scale v"

definition set_loop_histories :: "u16 \<Rightarrow> u16 \<Rightarrow> u16 \<Rightarrow> ansnd_voice_t \<Rightarrow> ansnd_voice_t" where
  \<comment> \<open>the three stores \<open>looping.loop_predictor_scale = ps\<close>,
      \<open>looping.loop_sample_history_1 = h1\<close>, \<open>looping.loop_sample_history_2 = h2\<close>\<close>
  "set_loop_histories ps h1 h2 v =
     v\<lparr>next_buffer_first := push_bit 16 (ucast ps) OR ucast h1,
       next_buffer_predictor_scale := h2\<rparr>"

text \<open>What the driver calls outside itself is recorded, in order, as events.\<close>

datatype dma_source = ansnd_mute_buffer_out | ansnd_audio_buffer_out u8

datatype dsptask_state = DSPTASK_INIT | DSPTASK_RUN | DSPTASK_YIELD | DSPTASK_DONE

datatype hw_event =
    DSP_SendMailTo u32
  | DSP_Init
  | DSP_AddTask
  | DSP_AssertTask
  | DSP_CancelTask
  | AUDIO_Init
  | AUDIO_StopDMA
  | AUDIO_StartDMA
  | AUDIO_SetDSPSampleRate u8
  | AUDIO_RegisterDMACallback bool
  | AUDIO_InitDMA dma_source nat
  | call_voice_callback u32 u32 int
  | call_stream_callback u32 u32
  | call_audio_callback u32 dma_source nat u32

text \<open>
  The file-scope state of the driver. The two arrays are functions of the index (the
  voices 0 to 47; \<open>ansnd_dsp_dram_image\<close> seen as its parameter blocks). Of the
  coprocessor task the driver reads \<open>state\<close> and whether \<open>next\<close> is \<open>NULL\<close>; the
  platform library writes both. The four time stamps and the contents of the audio
  buffers are left out.
\<close>

record ansnd_state =
  ansnd_audio_callback :: u32
  ansnd_audio_callback_arguments :: u32
  ansnd_next_audio_buffer :: u8
  ansnd_output_samplerate :: u8
  ansnd_library_initialized :: bool
  ansnd_dsp_done_mixing :: bool
  ansnd_dsp_stalled :: bool
  ansnd_active_voices :: u32
  ansnd_voices :: "nat \<Rightarrow> ansnd_voice_t"
  ansnd_dsp_dram_image :: "nat \<Rightarrow> ansnd_parameter_block_t"
  ansnd_dsp_task_state :: dsptask_state
  ansnd_dsp_task_next :: bool
  hw_events :: "hw_event list"

definition upd_voice :: "nat \<Rightarrow> (ansnd_voice_t \<Rightarrow> ansnd_voice_t) \<Rightarrow> ansnd_state \<Rightarrow> ansnd_state" where
  \<comment> \<open>one store through a pointer to \<open>ansnd_voices[i]\<close>\<close>
  "upd_voice i f s = s\<lparr>ansnd_voices := (ansnd_voices s)(i := f (ansnd_voices s i))\<rparr>"

definition upd_block :: "nat \<Rightarrow> (ansnd_parameter_block_t \<Rightarrow> ansnd_parameter_block_t) \<Rightarrow> ansnd_state \<Rightarrow> ansnd_state" where
  \<comment> \<open>one store through a pointer to the parameter block \<open>k\<close>\<close>
  "upd_block k f s =
     s\<lparr>ansnd_dsp_dram_image := (ansnd_dsp_dram_image s)(k := f (ansnd_dsp_dram_image s k))\<rparr>"

definition set_flags :: "u16 \<Rightarrow> ansnd_voice_t \<Rightarrow> ansnd_voice_t" where
  \<comment> \<open>\<open>voice->flags |= m\<close>\<close>
  "set_flags m v = v\<lparr>flags := flags v OR m\<rparr>"

definition clear_flags :: "u16 \<Rightarrow> ansnd_voice_t \<Rightarrow> ansnd_voice_t" where
  \<comment> \<open>\<open>voice->flags &= ~m\<close>\<close>
  "clear_flags m v = v\<lparr>flags := flags v AND NOT m\<rparr>"

definition emit :: "hw_event \<Rightarrow> ansnd_state \<Rightarrow> ansnd_state" where
  "emit e s = s\<lparr>hw_events := hw_events s @ [e]\<rparr>"

section \<open>Voice registry\<close>

text \<open>
  Every public function returns its \<open>s32\<close> result together with the state it leaves.
  The test \<open>voice_id < 0\<close> of the source is on a \<open>u32\<close> and never true.
\<close>

definition ansnd_allocate_voice :: "ansnd_state \<Rightarrow> int \<times> ansnd_state" where
  "ansnd_allocate_voice s =
     (if \<not> ansnd_library_initialized s then (ANSND_ERROR_NOT_INITIALIZED, s)
      else
        case find (\<lambda>i. \<not> has_flag (flags (ansnd_voices s i)) VOICE_FLAG_USED)
               [0..<ANSND_MAX_VOICES] of
          None \<Rightarrow> (ANSND_ERROR_ALL_VOICES_USED, s)
        | Some voice_id \<Rightarrow>
            (int voice_id,
             upd_voice voice_id (\<lambda>_. zero_voice\<lparr>flags := VOICE_FLAG_USED\<rparr>) s))"

definition ansnd_deallocate_voice :: "u32 \<Rightarrow> ansnd_state \<Rightarrow> int \<times> ansnd_state" where
  "ansnd_deallocate_voice voice_id s =
     (if \<not> ansnd_library_initialized s then (ANSND_ERROR_NOT_INITIALIZED, s)
      else if ANSND_MAX_VOICES \<le> unat voice_id then (ANSND_ERROR_INVALID_INPUT, s)
      else if \<not> has_flag (flags (ansnd_voices s (unat voice_id))) VOICE_FLAG_USED
        then (ANSND_ERROR_VOICE_ID_NOT_ALLOCATED, s)
      else
        let i = unat voice_id;
            linked = linked_voice (ansnd_voices s i);
            s = upd_voice i (set_flags VOICE_FLAG_UPDATED) s;
            s = upd_voice i (set_flags VOICE_FLAG_ERASED) s;
            s = (case linked of
                   None \<Rightarrow> s
                 | Some j \<Rightarrow>
                     upd_voice j (\<lambda>v. v\<lparr>linked_voice := None\<rparr>)
                       (upd_voice i (\<lambda>v. v\<lparr>linked_voice := None\<rparr>) s))
        in (ANSND_ERROR_OK, s))"

definition ansnd_link_voices :: "u32 \<Rightarrow> u32 \<Rightarrow> ansnd_state \<Rightarrow> int \<times> ansnd_state" where
  "ansnd_link_voices voice_id_1 voice_id_2 s =
     (if \<not> ansnd_library_initialized s then (ANSND_ERROR_NOT_INITIALIZED, s)
      else if voice_id_1 = voice_id_2 then (ANSND_ERROR_INVALID_INPUT, s)
      else if ANSND_MAX_VOICES \<le> unat voice_id_1 then (ANSND_ERROR_INVALID_INPUT, s)
      else if \<not> has_flag (flags (ansnd_voices s (unat voice_id_1))) VOICE_FLAG_USED
        then (ANSND_ERROR_VOICE_ID_NOT_ALLOCATED, s)
      else if has_flag (flags (ansnd_voices s (unat voice_id_1))) VOICE_FLAG_RUNNING
        then (ANSND_ERROR_VOICE_RUNNING, s)
      else if linked_voice (ansnd_voices s (unat voice_id_1)) \<noteq> None
        then (ANSND_ERROR_VOICE_ALREADY_LINKED, s)
      else if ANSND_MAX_VOICES \<le> unat voice_id_2 then (ANSND_ERROR_INVALID_INPUT, s)
      else if \<not> has_flag (flags (ansnd_voices s (unat voice_id_2))) VOICE_FLAG_USED
        then (ANSND_ERROR_VOICE_ID_NOT_ALLOCATED, s)
      else if has_flag (flags (ansnd_voices s (unat voice_id_2))) VOICE_FLAG_RUNNING
        then (ANSND_ERROR_VOICE_RUNNING, s)
      else if linked_voice (ansnd_voices s (unat voice_id_2)) \<noteq> None
        then (ANSND_ERROR_VOICE_ALREADY_LINKED, s)
      else
        let i = unat voice_id_1;
            j = unat voice_id_2;
            s = upd_voice i (\<lambda>v. v\<lparr>linked_voice := Some j\<rparr>) s;
            s = upd_voice j (\<lambda>v. v\<lparr>linked_voice := Some i\<rparr>) s
        in (ANSND_ERROR_OK, s))"

definition ansnd_unlink_voice :: "u32 \<Rightarrow> ansnd_state \<Rightarrow> int \<times> ansnd_state" where
  "ansnd_unlink_voice voice_id s =
     (if \<not> ansnd_library_initialized s then (ANSND_ERROR_NOT_INITIALIZED, s)
      else if ANSND_MAX_VOICES \<le> unat voice_id then (ANSND_ERROR_INVALID_INPUT, s)
      else if \<not> has_flag (flags (ansnd_voices s (unat voice_id))) VOICE_FLAG_USED
        then (ANSND_ERROR_VOICE_ID_NOT_ALLOCATED, s)
      else if \<not> has_flag (flags (ansnd_voices s (unat voice_id))) VOICE_FLAG_CONFIGURED
        then (ANSND_ERROR_VOICE_NOT_CONFIGURED, s)
      else
        case linked_voice (ansnd_voices s (unat voice_id)) of
          None \<Rightarrow> (ANSND_ERROR_VOICE_NOT_LINKED, s)
        | Some j \<Rightarrow>
            (ANSND_ERROR_OK,
             upd_voice j (\<lambda>v. v\<lparr>linked_voice := None\<rparr>)
               (upd_voice (unat voice_id) (\<lambda>v. v\<lparr>linked_voice := None\<rparr>) s)))"

section \<open>Starting, stopping, pausing\<close>

text \<open>
  The control functions change the flags of the voice and then, through the pointer
  read before, those of its linked voice.
\<close>

definition mirror_to_linked :: "nat \<Rightarrow> (ansnd_voice_t \<Rightarrow> ansnd_voice_t) \<Rightarrow> ansnd_state \<Rightarrow> ansnd_state" where
  \<comment> \<open>\<open>linked_voice = voice->linked_voice; \<dots>voice\<dots>; if (linked_voice) { \<dots>linked_voice\<dots> }\<close>\<close>
  "mirror_to_linked i f s =
     (let linked = linked_voice (ansnd_voices s i);
          s = upd_voice i f s
      in case linked of None \<Rightarrow> s | Some j \<Rightarrow> upd_voice j f s)"

definition ansnd_start_voice :: "u32 \<Rightarrow> ansnd_state \<Rightarrow> int \<times> ansnd_state" where
  "ansnd_start_voice voice_id s =
     (if \<not> ansnd_library_initialized s then (ANSND_ERROR_NOT_INITIALIZED, s)
      else if ansnd_dsp_stalled s then (ANSND_ERROR_DSP_STALLED, s)
      else if ANSND_MAX_VOICES \<le> unat voice_id then (ANSND_ERROR_INVALID_INPUT, s)
      else if \<not> has_flag (flags (ansnd_voices s (unat voice_id))) VOICE_FLAG_USED
        then (ANSND_ERROR_VOICE_ID_NOT_ALLOCATED, s)
      else if \<not> has_flag (flags (ansnd_voices s (unat voice_id))) VOICE_FLAG_CONFIGURED
        then (ANSND_ERROR_VOICE_NOT_CONFIGURED, s)
      else if has_flag (flags (ansnd_voices s (unat voice_id))) VOICE_FLAG_STREAMING
              \<and> has_flag (flags (ansnd_voices s (unat voice_id))) VOICE_FLAG_INITIALIZED
        then (ANSND_ERROR_VOICE_NOT_CONFIGURED, s)
      else
        (ANSND_ERROR_OK,
         mirror_to_linked (unat voice_id)
           (clear_flags VOICE_FLAG_INITIALIZED \<circ> clear_flags VOICE_FLAG_PAUSED
              \<circ> set_flags (VOICE_FLAG_UPDATED OR VOICE_FLAG_RUNNING)) s))"

definition ansnd_stop_voice :: "u32 \<Rightarrow> ansnd_state \<Rightarrow> int \<times> ansnd_state" where
  "ansnd_stop_voice voice_id s =
     (if \<not> ansnd_library_initialized s then (ANSND_ERROR_NOT_INITIALIZED, s)
      else if ANSND_MAX_VOICES \<le> unat voice_id then (ANSND_ERROR_INVALID_INPUT, s)
      else if \<not> has_flag (flags (ansnd_voices s (unat voice_id))) VOICE_FLAG_USED
        then (ANSND_ERROR_VOICE_ID_NOT_ALLOCATED, s)
      else if \<not> has_flag (flags (ansnd_voices s (unat voice_id))) VOICE_FLAG_CONFIGURED
        then (ANSND_ERROR_VOICE_NOT_CONFIGURED, s)
      else
        (ANSND_ERROR_OK,
         mirror_to_linked (unat voice_id)
           (clear_flags VOICE_FLAG_RUNNING \<circ> set_flags VOICE_FLAG_UPDATED) s))"

definition ansnd_pause_voice :: "u32 \<Rightarrow> ansnd_state \<Rightarrow> int \<times> ansnd_state" where
  "ansnd_pause_voice voice_id s =
     (if \<not> ansnd_library_initialized s then (ANSND_ERROR_NOT_INITIALIZED, s)
      else if ANSND_MAX_VOICES \<le> unat voice_id then (ANSND_ERROR_INVALID_INPUT, s)
      else if \<not> has_flag (flags (ansnd_voices s (unat voice_id))) VOICE_FLAG_USED
        then (ANSND_ERROR_VOICE_ID_NOT_ALLOCATED, s)
      else if \<not> has_flag (flags (ansnd_voices s (unat voice_id))) VOICE_FLAG_CONFIGURED
        then (ANSND_ERROR_VOICE_NOT_CONFIGURED, s)
      else
        (ANSND_ERROR_OK,
         mirror_to_linked (unat voice_id)
           (set_flags VOICE_FLAG_PAUSED \<circ> set_flags VOICE_FLAG_UPDATED) s))"

definition ansnd_unpause_voice :: "u32 \<Rightarrow> ansnd_state \<Rightarrow> int \<times> ansnd_state" where
  "ansnd_unpause_voice voice_id s =
     (if \<not> ansnd_library_initialized s then (ANSND_ERROR_NOT_INITIALIZED, s)
      else if ansnd_dsp_stalled s then (ANSND_ERROR_DSP_STALLED, s)
      else if ANSND_MAX_VOICES \<le> unat voice_id then (ANSND_ERROR_INVALID_INPUT, s)
      else if \<not> has_flag (flags (ansnd_voices s (unat voice_id))) VOICE_FLAG_USED
        then (ANSND_ERROR_VOICE_ID_NOT_ALLOCATED, s)
      else if \<not> has_flag (flags (ansnd_voices s (unat voice_id))) VOICE_FLAG_CONFIGURED
        then (ANSND_ERROR_VOICE_NOT_CONFIGURED, s)
      else
        (ANSND_ERROR_OK,
         mirror_to_linked (unat voice_id)
           (clear_flags VOICE_FLAG_PAUSED \<circ> set_flags VOICE_FLAG_UPDATED) s))"

definition ansnd_stop_looping :: "u32 \<Rightarrow> ansnd_state \<Rightarrow> int \<times> ansnd_state" where
  "ansnd_stop_looping voice_id s =
     (if \<not> ansnd_library_initialized s then (ANSND_ERROR_NOT_INITIALIZED, s)
      else if ANSND_MAX_VOICES \<le> unat voice_id then (ANSND_ERROR_INVALID_INPUT, s)
      else if \<not> has_flag (flags (ansnd_voices s (unat voice_id))) VOICE_FLAG_USED
        then (ANSND_ERROR_VOICE_ID_NOT_ALLOCATED, s)
      else if \<not> has_flag (flags (ansnd_voices s (unat voice_id))) VOICE_FLAG_CONFIGURED
        then (ANSND_ERROR_VOICE_NOT_CONFIGURED, s)
      else if \<not> has_flag (flags (ansnd_voices s (unat voice_id))) VOICE_FLAG_INITIALIZED
        then (ANSND_ERROR_VOICE_NOT_INITIALIZED, s)
      else
        (ANSND_ERROR_OK,
         mirror_to_linked (unat voice_id)
           (clear_flags VOICE_FLAG_LOOPED \<circ> set_flags VOICE_FLAG_UPDATED) s))"

definition ansnd_set_voice_volume :: "u32 \<Rightarrow> f32 \<Rightarrow> f32 \<Rightarrow> ansnd_state \<Rightarrow> int \<times> ansnd_state" where
  "ansnd_set_voice_volume voice_id left right s =
     (if \<not> ansnd_library_initialized s then (ANSND_ERROR_NOT_INITIALIZED, s)
      else if ANSND_MAX_VOICES \<le> unat voice_id then (ANSND_ERROR_INVALID_INPUT, s)
      else if \<not> has_flag (flags (ansnd_voices s (unat voice_id))) VOICE_FLAG_USED
        then (ANSND_ERROR_VOICE_ID_NOT_ALLOCATED, s)
      else if \<not> has_flag (flags (ansnd_voices s (unat voice_id))) VOICE_FLAG_CONFIGURED
        then (ANSND_ERROR_VOICE_NOT_CONFIGURED, s)
      else if f32_less left (Finite (- 1)) \<or> f32_less (Finite 1) left
        then (ANSND_ERROR_INVALID_INPUT, s)
      else if f32_less right (Finite (- 1)) \<or> f32_less (Finite 1) right
        then (ANSND_ERROR_INVALID_INPUT, s)
      else
        (ANSND_ERROR_OK,
         upd_voice (unat voice_id)
           (\<lambda>v. (set_flags VOICE_FLAG_UPDATED v)\<lparr>left_volume := left, right_volume := right\<rparr>)
           s))"

definition max_samplerate :: "hardware \<Rightarrow> ansnd_state \<Rightarrow> f32" where
  \<comment> \<open>the \<open>switch (ansnd_output_samplerate)\<close> that opens the three validations\<close>
  "max_samplerate hw s =
     (if ansnd_output_samplerate s = ANSND_OUTPUT_SAMPLERATE_32KHZ
        then ANSND_MAX_SAMPLERATE_32KHZ hw
      else if ansnd_output_samplerate s = ANSND_OUTPUT_SAMPLERATE_48KHZ
        then ANSND_MAX_SAMPLERATE_48KHZ hw
      else Finite 1)"

definition ansnd_set_voice_pitch :: "hardware \<Rightarrow> u32 \<Rightarrow> f32 \<Rightarrow> ansnd_state \<Rightarrow> int \<times> ansnd_state" where
  "ansnd_set_voice_pitch hw voice_id new_pitch s =
     (if \<not> ansnd_library_initialized s then (ANSND_ERROR_NOT_INITIALIZED, s)
      else if ANSND_MAX_VOICES \<le> unat voice_id then (ANSND_ERROR_INVALID_INPUT, s)
      else if \<not> has_flag (flags (ansnd_voices s (unat voice_id))) VOICE_FLAG_USED
        then (ANSND_ERROR_VOICE_ID_NOT_ALLOCATED, s)
      else if \<not> has_flag (flags (ansnd_voices s (unat voice_id))) VOICE_FLAG_CONFIGURED
        then (ANSND_ERROR_VOICE_NOT_CONFIGURED, s)
      else if has_flag (flags (ansnd_voices s (unat voice_id))) VOICE_FLAG_RUNNING
        then (ANSND_ERROR_VOICE_RUNNING, s)
      else if f32_less (f32_mul (f32_of_u32 (samplerate (ansnd_voices s (unat voice_id)))) new_pitch) (Finite 50)
              \<or> f32_less (max_samplerate hw s)
                  (f32_mul (f32_of_u32 (samplerate (ansnd_voices s (unat voice_id)))) new_pitch)
        then (ANSND_ERROR_INVALID_SAMPLERATE, s)
      else
        (ANSND_ERROR_OK,
         mirror_to_linked (unat voice_id)
           (\<lambda>v. (set_flags VOICE_FLAG_PITCH_CHANGE (set_flags VOICE_FLAG_UPDATED v))
                  \<lparr>pitch := new_pitch\<rparr>) s))"

definition ansnd_register_audio_callback :: "u32 \<Rightarrow> u32 \<Rightarrow> ansnd_state \<Rightarrow> int \<times> ansnd_state" where
  "ansnd_register_audio_callback callback callback_arguments s =
     (ANSND_ERROR_OK,
      s\<lparr>ansnd_audio_callback := callback,
        ansnd_audio_callback_arguments := callback_arguments\<rparr>)"

definition ansnd_get_total_active_voices :: "bool \<Rightarrow> ansnd_state \<Rightarrow> (int \<times> u32 option) \<times> ansnd_state" where
  \<comment> \<open>the flag tells whether the out-parameter is non-\<open>NULL\<close>; the second result is
      what is stored through it\<close>
  "ansnd_get_total_active_voices active_voices s =
     (if \<not> ansnd_library_initialized s then ((ANSND_ERROR_NOT_INITIALIZED, None), s)
      else if \<not> active_voices then ((ANSND_ERROR_OK, None), s)
      else ((ANSND_ERROR_OK, Some (ansnd_active_voices s)), s))"

section \<open>Configuring a voice\<close>

text \<open>
  The two configuration records, with the prefixes \<open>pcm_\<close> and \<open>adpcm_\<close> on their
  fields. A \<open>NULL\<close> configuration pointer is \<open>None\<close>.
\<close>

record ansnd_pcm_voice_config_t =
  pcm_samplerate :: u32
  pcm_format :: u8
  pcm_channels :: u8
  pcm_delay :: u32
  pcm_pitch :: f32
  pcm_left_volume :: f32
  pcm_right_volume :: f32
  pcm_frame_data_ptr :: u32
  pcm_frame_count :: u32
  pcm_start_offset :: u32
  pcm_loop_start_offset :: u32
  pcm_loop_end_offset :: u32
  pcm_voice_callback :: u32
  pcm_stream_callback :: u32
  pcm_user_pointer :: u32

record ansnd_adpcm_voice_config_t =
  adpcm_samplerate :: u32
  adpcm_loop_flag :: u16
  adpcm_nibble_offsets_flag :: u16
  adpcm_format :: u16
  adpcm_gain :: u16
  adpcm_delay :: u32
  adpcm_pitch :: f32
  adpcm_left_volume :: f32
  adpcm_right_volume :: f32
  adpcm_data_ptr :: u32
  adpcm_sample_count :: u32
  adpcm_start_offset :: u32
  adpcm_decode_coefficients :: "u16 list"
  adpcm_initial_predictor_scale :: u16
  adpcm_initial_sample_history_1 :: u16
  adpcm_initial_sample_history_2 :: u16
  adpcm_loop_predictor_scale :: u16
  adpcm_loop_sample_history_1 :: u16
  adpcm_loop_sample_history_2 :: u16
  adpcm_loop_start_offset :: u32
  adpcm_loop_end_offset :: u32
  adpcm_voice_callback :: u32
  adpcm_stream_callback :: u32
  adpcm_user_pointer :: u32

definition invalid_memory :: "hardware \<Rightarrow> u32 \<Rightarrow> bool" where
  \<comment> \<open>the platform test on a data address, \<open>#if defined(HW_DOL) \<dots> #elif defined(HW_RVL)\<close>\<close>
  "invalid_memory hw p =
     (case hw of
        HW_DOL lo hi \<Rightarrow> p < lo \<or> hi \<le> p
      | HW_RVL cached \<Rightarrow> p AND cached \<noteq> 0)"

definition ansnd_configure_pcm_voice ::
  "hardware \<Rightarrow> u32 \<Rightarrow> ansnd_pcm_voice_config_t option \<Rightarrow> ansnd_state \<Rightarrow> int \<times> ansnd_state" where
  "ansnd_configure_pcm_voice hw voice_id voice_config s =
     (if \<not> ansnd_library_initialized s then (ANSND_ERROR_NOT_INITIALIZED, s)
      else if ANSND_MAX_VOICES \<le> unat voice_id then (ANSND_ERROR_INVALID_INPUT, s)
      else if \<not> has_flag (flags (ansnd_voices s (unat voice_id))) VOICE_FLAG_USED
        then (ANSND_ERROR_VOICE_ID_NOT_ALLOCATED, s)
      else
        case voice_config of
          None \<Rightarrow> (ANSND_ERROR_INVALID_INPUT, s)
        | Some c \<Rightarrow>
            if f32_less (f32_mul (f32_of_u32 (pcm_samplerate c)) (pcm_pitch c)) (Finite 50)
               \<or> f32_less (max_samplerate hw s) (f32_mul (f32_of_u32 (pcm_samplerate c)) (pcm_pitch c))
              then (ANSND_ERROR_INVALID_SAMPLERATE, s)
            else if pcm_frame_data_ptr c = 0 \<or> pcm_frame_count c = 0
              then (ANSND_ERROR_INVALID_MEMORY, s)
            else if invalid_memory hw (pcm_frame_data_ptr c)
              then (ANSND_ERROR_INVALID_MEMORY, s)
            else if pcm_format c = ANSND_VOICE_PCM_FORMAT_UNSET
                    \<or> ANSND_VOICE_PCM_FORMAT_SIGNED_16_PCM < pcm_format c
              then (ANSND_ERROR_INVALID_CONFIGURATION, s)
            else if pcm_channels c = 0 \<or> 2 < pcm_channels c
              then (ANSND_ERROR_INVALID_CONFIGURATION, s)
            else if f32_less (pcm_left_volume c) (Finite (- 1)) \<or> f32_less (Finite 1) (pcm_left_volume c)
              then (ANSND_ERROR_INVALID_CONFIGURATION, s)
            else if f32_less (pcm_right_volume c) (Finite (- 1)) \<or> f32_less (Finite 1) (pcm_right_volume c)
              then (ANSND_ERROR_INVALID_CONFIGURATION, s)
            else if pcm_frame_count c < pcm_loop_start_offset c
                    \<or> pcm_frame_count c < pcm_loop_end_offset c
              then (ANSND_ERROR_INVALID_CONFIGURATION, s)
            else
              let i = unat voice_id;
                  linked = linked_voice (ansnd_voices s i);
                  voice = zero_voice\<lparr>linked_voice := linked\<rparr>;
                  memory_shift = (if pcm_format c = ANSND_VOICE_PCM_FORMAT_SIGNED_16_PCM
                                  then 1 else 0 :: nat);
                  voice =
                    (if pcm_format c = ANSND_VOICE_PCM_FORMAT_SIGNED_8_PCM
                       then voice\<lparr>accelerator_format := DSP_ACCL_FMT_SIGNED_8BIT,
                                  accelerator_gain := DSP_ACCL_GAIN_8BIT\<rparr>
                     else if pcm_format c = ANSND_VOICE_PCM_FORMAT_SIGNED_16_PCM
                       then voice\<lparr>accelerator_format := DSP_ACCL_FMT_SIGNED_16BIT,
                                  accelerator_gain := DSP_ACCL_GAIN_16BIT\<rparr>
                     else voice);
                  voice = voice\<lparr>samplerate := pcm_samplerate c, pitch := pcm_pitch c,
                                 delay := pcm_delay c\<rparr>;
                  voice = set_flags VOICE_FLAG_CONFIGURED
                            (set_flags VOICE_FLAG_UPDATED (set_flags VOICE_FLAG_USED voice));
                  voice = (if pcm_channels c = 2 then set_flags VOICE_FLAG_STEREO voice
                           else voice);
                  voice = voice\<lparr>left_volume := pcm_left_volume c,
                                 right_volume := pcm_right_volume c\<rparr>;
                  channels = (ucast (pcm_channels c) :: u32);
                  start = drop_bit memory_shift (pcm_frame_data_ptr c);
                  voice = voice\<lparr>ram_buffer_start := start,
                                 ram_buffer_end := start + pcm_frame_count c * channels - 1,
                                 ram_buffer_first := start + pcm_start_offset c * channels\<rparr>;
                  voice =
                    (if pcm_loop_start_offset c \<noteq> 0 \<or> pcm_loop_end_offset c \<noteq> 0
                       then (set_flags VOICE_FLAG_LOOPED voice)
                              \<lparr>next_buffer_start := start + pcm_loop_start_offset c * channels,
                               next_buffer_end :=
                                 start + pcm_loop_end_offset c * channels - 1\<rparr>
                     else voice);
                  voice = voice\<lparr>parameter_block := Some i,
                                 voice_callback := pcm_voice_callback c\<rparr>;
                  voice =
                    (if pcm_stream_callback c \<noteq> 0
                       then (set_flags VOICE_FLAG_STREAMING voice)
                              \<lparr>stream_callback := pcm_stream_callback c\<rparr>
                     else voice);
                  voice = voice\<lparr>user_pointer := pcm_user_pointer c\<rparr>
              in (ANSND_ERROR_OK, upd_voice i (\<lambda>_. voice) s))"

definition ansnd_configure_adpcm_voice ::
  "hardware \<Rightarrow> u32 \<Rightarrow> ansnd_adpcm_voice_config_t option \<Rightarrow> ansnd_state \<Rightarrow> int \<times> ansnd_state" where
  "ansnd_configure_adpcm_voice hw voice_id voice_config s =
     (if \<not> ansnd_library_initialized s then (ANSND_ERROR_NOT_INITIALIZED, s)
      else if ANSND_MAX_VOICES \<le> unat voice_id then (ANSND_ERROR_INVALID_INPUT, s)
      else if \<not> has_flag (flags (ansnd_voices s (unat voice_id))) VOICE_FLAG_USED
        then (ANSND_ERROR_VOICE_ID_NOT_ALLOCATED, s)
      else
        case voice_config of
          None \<Rightarrow> (ANSND_ERROR_INVALID_INPUT, s)
        | Some c \<Rightarrow>
            if f32_less (f32_mul (f32_of_u32 (adpcm_samplerate c)) (adpcm_pitch c)) (Finite 50)
               \<or> f32_less (max_samplerate hw s)
                   (f32_mul (f32_of_u32 (adpcm_samplerate c)) (adpcm_pitch c))
              then (ANSND_ERROR_INVALID_SAMPLERATE, s)
            else if adpcm_data_ptr c = 0 \<or> adpcm_sample_count c = 0
              then (ANSND_ERROR_INVALID_MEMORY, s)
            else if invalid_memory hw (adpcm_data_ptr c)
              then (ANSND_ERROR_INVALID_MEMORY, s)
            else if f32_less (adpcm_left_volume c) (Finite (- 1)) \<or> f32_less (Finite 1) (adpcm_left_volume c)
              then (ANSND_ERROR_INVALID_CONFIGURATION, s)
            else if f32_less (adpcm_right_volume c) (Finite (- 1)) \<or> f32_less (Finite 1) (adpcm_right_volume c)
              then (ANSND_ERROR_INVALID_CONFIGURATION, s)
            else
              let end_offset_nibbles = SAMPLES_TO_NIBBLES (adpcm_sample_count c);
                  nibbles = (\<lambda>x. if adpcm_nibble_offsets_flag c \<noteq> 0 then x
                                  else SAMPLES_TO_NIBBLES x);
                  start_offset_nibbles = nibbles (adpcm_start_offset c);
                  loop_start_offset_nibbles = nibbles (adpcm_loop_start_offset c);
                  loop_end_offset_nibbles = nibbles (adpcm_loop_end_offset c)
              in
                if end_offset_nibbles < loop_start_offset_nibbles
                   \<or> end_offset_nibbles < loop_end_offset_nibbles
                  then (ANSND_ERROR_INVALID_CONFIGURATION, s)
                else
                  let i = unat voice_id;
                      linked = linked_voice (ansnd_voices s i);
                      voice = zero_voice\<lparr>linked_voice := linked\<rparr>;
                      voice = (if adpcm_format c = DSP_ACCL_FMT_ADPCM
                               then set_flags VOICE_FLAG_ADPCM voice else voice);
                      voice = voice\<lparr>accelerator_format := adpcm_format c,
                                     accelerator_gain := adpcm_gain c,
                                     samplerate := adpcm_samplerate c,
                                     pitch := adpcm_pitch c, delay := adpcm_delay c\<rparr>;
                      voice = set_flags VOICE_FLAG_CONFIGURED
                                (set_flags VOICE_FLAG_UPDATED (set_flags VOICE_FLAG_USED voice));
                      voice = voice\<lparr>left_volume := adpcm_left_volume c,
                                     right_volume := adpcm_right_volume c,
                                     decode_coefficients :=
                                       map (\<lambda>k. adpcm_decode_coefficients c ! k) [0..<16]\<rparr>;
                      start = push_bit 1 (adpcm_data_ptr c);
                      voice = voice\<lparr>ram_buffer_start := start,
                                     ram_buffer_end := start + end_offset_nibbles,
                                     ram_buffer_first := start + start_offset_nibbles,
                                     initial_predictor_scale :=
                                       adpcm_initial_predictor_scale c,
                                     initial_sample_history_1 :=
                                       adpcm_initial_sample_history_1 c,
                                     initial_sample_history_2 :=
                                       adpcm_initial_sample_history_2 c\<rparr>;
                      voice =
                        (if adpcm_loop_flag c \<noteq> 0
                           then set_loop_histories (adpcm_loop_predictor_scale c)
                                  (adpcm_loop_sample_history_1 c)
                                  (adpcm_loop_sample_history_2 c)
                                  ((set_flags VOICE_FLAG_LOOPED voice)
                                     \<lparr>next_buffer_start := start + loop_start_offset_nibbles,
                                      next_buffer_end := start + loop_end_offset_nibbles\<rparr>)
                         else voice);
                      voice = voice\<lparr>parameter_block := Some i,
                                     voice_callback := adpcm_voice_callback c\<rparr>;
                      voice =
                        (if adpcm_stream_callback c \<noteq> 0
                           then (set_flags VOICE_FLAG_STREAMING voice)
                                  \<lparr>stream_callback := adpcm_stream_callback c\<rparr>
                         else voice);
                      voice = voice\<lparr>user_pointer := adpcm_user_pointer c\<rparr>
                  in (ANSND_ERROR_OK, upd_voice i (\<lambda>_. voice) s))"

section \<open>Frequency and delay\<close>

text \<open>
  The functions of the synchronization cycle take the index \<open>i\<close> of the voice they get a
  pointer to. They reach the parameter block through \<open>voice->parameter_block\<close>; where
  that pointer is \<open>NULL\<close> and the source reads or writes through it, the result is
  \<open>None\<close>.
\<close>

definition dsp_frequency :: "hardware \<Rightarrow> ansnd_state \<Rightarrow> f32" where
  \<comment> \<open>the \<open>switch (ansnd_output_samplerate)\<close> of the two functions below\<close>
  "dsp_frequency hw s =
     (if ansnd_output_samplerate s = ANSND_OUTPUT_SAMPLERATE_32KHZ then ANSND_DSP_FREQ_32KHZ hw
      else if ansnd_output_samplerate s = ANSND_OUTPUT_SAMPLERATE_48KHZ
        then ANSND_DSP_FREQ_48KHZ hw
      else Finite 1)"

definition ansnd_erase_voice :: "nat \<Rightarrow> ansnd_state \<Rightarrow> ansnd_state option" where
  "ansnd_erase_voice i s =
     (case parameter_block (ansnd_voices s i) of
        None \<Rightarrow> None
      | Some k \<Rightarrow>
          Some (upd_voice i (\<lambda>_. zero_voice) (upd_block k (\<lambda>_. zero_parameter_block) s)))"

definition ansnd_update_voice_pitch :: "hardware \<Rightarrow> nat \<Rightarrow> ansnd_state \<Rightarrow> ansnd_state option" where
  "ansnd_update_voice_pitch hw i s =
     (case parameter_block (ansnd_voices s i) of
        None \<Rightarrow> None
      | Some k \<Rightarrow>
          let voice = ansnd_voices s i;
              base_frequency = (0x00010000 :: u32);
              adjusted_samplerate = f32_mul (f32_of_u32 (samplerate voice)) (pitch voice);
              relative_frequency =
                (word_of_int
                   (lrintf (f32_mul (f32_of_u32 base_frequency)
                              (f32_div adjusted_samplerate (dsp_frequency hw s)))) :: u32);
              relative_frequency =
                (if base_frequency - 0x100 < relative_frequency
                    \<and> relative_frequency < base_frequency + 0x100
                 then base_frequency else relative_frequency);
              resample = (base_frequency + 0x0205 < relative_frequency);
              filter_step =
                (if resample
                 then word_of_int
                        (lrintf (f32_mul (f32_of_u32 (drop_bit 1 base_frequency))
                                   (f32_div (dsp_frequency hw s) adjusted_samplerate)))
                 else push_bit 6 504 :: u16);
              correction_factor =
                (if resample
                 then word_of_int (- 256 * (128 - uint (drop_bit 8 filter_step)) + 32767)
                 else 32767 :: u16);
              sample_buffer_size =
                (word_of_int
                   (lrintf (f32_div (Finite 2048)
                              (f32_of_int (uint (drop_bit 6 filter_step))))) :: u16)
          in Some (upd_block k
                     (\<lambda>pb. pb\<lparr>pb_relative_frequency_high := HIGH relative_frequency,
                               pb_relative_frequency_low := LOW relative_frequency,
                               pb_filter_step := filter_step,
                               pb_correction_factor := correction_factor,
                               pb_sample_buffer_wrapping := sample_buffer_size - 1,
                               pb_sample_buffer_index := 16 - sample_buffer_size,
                               pb_filter_step_512 := drop_bit 6 filter_step AND 0x01FC\<rparr>)
                     s))"

definition ansnd_update_voice_delay :: "hardware \<Rightarrow> nat \<Rightarrow> ansnd_state \<Rightarrow> ansnd_state option" where
  "ansnd_update_voice_delay hw i s =
     (let voice = ansnd_voices s i;
          microseconds_per_cycle =
            (if ansnd_output_samplerate s = ANSND_OUTPUT_SAMPLERATE_32KHZ then 7500
             else if ansnd_output_samplerate s = ANSND_OUTPUT_SAMPLERATE_48KHZ then 5000
             else 0 :: u32)
      in if delay voice < (0x7FFF * microseconds_per_cycle) div 240
         then
           (case parameter_block voice of
              None \<Rightarrow> None
            | Some k \<Rightarrow>
                Some (upd_voice i (\<lambda>v. (clear_flags VOICE_FLAG_DELAY v)\<lparr>delay := 0\<rparr>)
                        (upd_block k
                           (\<lambda>pb. pb\<lparr>pb_flags := pb_flags pb AND NOT VOICE_FLAG_DELAY,
                                     pb_delay :=
                                       word_of_int
                                         (f32_to_int
                                            (f32_div
                                               (f32_mul (f32_of_u32 (delay voice))
                                                  (dsp_frequency hw s))
                                               (Finite 1000000)))\<rparr>)
                           s)))
         else Some (upd_voice i (\<lambda>v. v\<lparr>delay := delay v - microseconds_per_cycle\<rparr>) s))"

section \<open>Parameter block codec\<close>

definition volume_word :: "f32 \<Rightarrow> u16" where
  \<comment> \<open>\<open>lrintf(0x7FFF * volume)\<close> stored into an \<open>s16\<close>\<close>
  "volume_word v = word_of_int (lrintf (f32_mul (f32_of_int 0x7FFF) v))"

definition ansnd_initialize_voice :: "hardware \<Rightarrow> nat \<Rightarrow> ansnd_state \<Rightarrow> ansnd_state option" where
  "ansnd_initialize_voice hw i s =
     (case parameter_block (ansnd_voices s i) of
        None \<Rightarrow> None
      | Some k \<Rightarrow>
          do {
            s \<leftarrow> ansnd_update_voice_pitch hw i (upd_block k (\<lambda>_. zero_parameter_block) s);
            s \<leftarrow> (if delay (ansnd_voices s i) \<noteq> 0
                   then ansnd_update_voice_delay hw i
                          (upd_voice i (set_flags VOICE_FLAG_DELAY)
                             (upd_block k
                                (\<lambda>pb. pb\<lparr>pb_flags := pb_flags pb OR VOICE_FLAG_DELAY\<rparr>) s))
                   else Some s);
            let voice = ansnd_voices s i;
                mask = VOICE_FLAG_USED OR VOICE_FLAG_RUNNING OR VOICE_FLAG_FINISHED
                       OR VOICE_FLAG_PAUSED OR VOICE_FLAG_STREAMING OR VOICE_FLAG_LOOPED
                       OR VOICE_FLAG_ADPCM OR VOICE_FLAG_STEREO;
                s = upd_block k
                      (\<lambda>pb. pb\<lparr>pb_left_volume := volume_word (left_volume voice),
                                pb_right_volume := volume_word (right_volume voice),
                                pb_flags := pb_flags pb OR (flags voice AND mask),
                                pb_accelerator_format := accelerator_format voice,
                                pb_accelerator_gain := accelerator_gain voice,
                                pb_accelerator_start_high := HIGH (ram_buffer_start voice),
                                pb_accelerator_start_low := LOW (ram_buffer_start voice),
                                pb_accelerator_end_high := HIGH (ram_buffer_end voice),
                                pb_accelerator_end_low := LOW (ram_buffer_end voice),
                                pb_accelerator_current_high := HIGH (ram_buffer_first voice),
                                pb_accelerator_current_low := LOW (ram_buffer_first voice),
                                pb_initial_predictor_scale := initial_predictor_scale voice,
                                pb_initial_sample_history_1 := initial_sample_history_1 voice,
                                pb_initial_sample_history_2 := initial_sample_history_2 voice\<rparr>)
                      s;
                s = (if has_flag (flags voice) VOICE_FLAG_LOOPED
                     then upd_block k
                            (\<lambda>pb. pb\<lparr>pb_flags := pb_flags pb AND NOT VOICE_FLAG_STREAMING,
                                      pb_next_buffer_current_high := HIGH (loop_start voice),
                                      pb_next_buffer_current_low := LOW (loop_start voice),
                                      pb_accelerator_end_high := HIGH (loop_end voice),
                                      pb_accelerator_end_low := LOW (loop_end voice),
                                      pb_next_buffer_predictor_scale :=
                                        loop_predictor_scale voice,
                                      pb_next_buffer_sample_history_1 :=
                                        loop_sample_history_1 voice,
                                      pb_next_buffer_sample_history_2 :=
                                        loop_sample_history_2 voice\<rparr>)
                            s
                     else s);
                s = (if has_flag (flags voice) VOICE_FLAG_ADPCM
                     then upd_block k
                            (\<lambda>pb. pb\<lparr>pb_sample_buffer_2 :=
                                        map (\<lambda>n. decode_coefficients voice ! n) [0..<16]\<rparr>)
                            s
                     else s)
            in Some (upd_voice i (set_flags VOICE_FLAG_INITIALIZED) s)
          })"

text \<open>
  Two blocks of \<open>ansnd_sync_voice\<close> are definitions of their own: the block that takes
  over the \<open>FINISHED\<close> flag the coprocessor sets, and the three tests on
  \<open>flags_diff\<close>, which push to the block what differs from the flags of the voice.
\<close>

definition sync_finished :: "nat \<Rightarrow> nat \<Rightarrow> ansnd_state \<Rightarrow> ansnd_state" where
  \<comment> \<open>\<open>if (parameter_block->flags & VOICE_FLAG_FINISHED) { parameter_block->flags &=
      ~VOICE_FLAG_FINISHED; voice->flags &= ~VOICE_FLAG_RUNNING; \<dots> }\<close>\<close>
  "sync_finished k i s =
     (if has_flag (pb_flags (ansnd_dsp_dram_image s k)) VOICE_FLAG_FINISHED
      then upd_voice i (clear_flags VOICE_FLAG_RUNNING)
             (upd_block k (\<lambda>pb. pb\<lparr>pb_flags := pb_flags pb AND NOT VOICE_FLAG_FINISHED\<rparr>) s)
      else s)"

definition sync_flags_diff :: "nat \<Rightarrow> nat \<Rightarrow> ansnd_state \<Rightarrow> ansnd_state" where
  \<comment> \<open>\<open>u16 flags_diff = voice->flags ^ parameter_block->flags;\<close> and the three tests on it\<close>
  "sync_flags_diff k i s =
     (let flags_diff = flags (ansnd_voices s i) XOR pb_flags (ansnd_dsp_dram_image s k);
          s = (if has_flag flags_diff VOICE_FLAG_RUNNING
               then upd_block k
                      (\<lambda>pb. pb\<lparr>pb_flags := pb_flags pb AND NOT VOICE_FLAG_RUNNING\<rparr>) s
               else s);
          s = (if has_flag flags_diff VOICE_FLAG_PAUSED
               then upd_block k
                      (\<lambda>pb. pb\<lparr>pb_flags :=
                                  (pb_flags pb AND NOT VOICE_FLAG_PAUSED)
                                  OR (flags (ansnd_voices s i) AND VOICE_FLAG_PAUSED)\<rparr>)
                      s
               else s)
      in if has_flag flags_diff VOICE_FLAG_LOOPED
         then
           (let s = upd_block k
                      (\<lambda>pb. pb\<lparr>pb_flags := pb_flags pb AND NOT VOICE_FLAG_LOOPED,
                                pb_accelerator_end_high :=
                                  HIGH (ram_buffer_end (ansnd_voices s i)),
                                pb_accelerator_end_low :=
                                  LOW (ram_buffer_end (ansnd_voices s i))\<rparr>)
                      s
            in if has_flag (flags (ansnd_voices s i)) VOICE_FLAG_STREAMING
               then upd_voice i (\<lambda>v. v\<lparr>next_buffer_start := 0\<rparr>)
                      (upd_block k
                         (\<lambda>pb. pb\<lparr>pb_flags := pb_flags pb OR VOICE_FLAG_STREAMING\<rparr>) s)
               else s)
         else s)"

definition ansnd_sync_voice :: "hardware \<Rightarrow> nat \<Rightarrow> ansnd_state \<Rightarrow> ansnd_state option" where
  "ansnd_sync_voice hw i s =
     (if has_flag (flags (ansnd_voices s i)) VOICE_FLAG_ERASED
      then
        ansnd_erase_voice i
          (if voice_callback (ansnd_voices s i) \<noteq> 0
           then emit (call_voice_callback (voice_callback (ansnd_voices s i))
                        (user_pointer (ansnd_voices s i)) ANSND_VOICE_STATE_ERASED) s
           else s)
      else
        case parameter_block (ansnd_voices s i) of
          None \<Rightarrow> None
        | Some k \<Rightarrow>
            do {
              let voice_state =
                    (if has_flag (flags (ansnd_voices s i)) VOICE_FLAG_RUNNING
                     then if has_flag (flags (ansnd_voices s i)) VOICE_FLAG_PAUSED
                          then ANSND_VOICE_STATE_PAUSED else ANSND_VOICE_STATE_RUNNING
                     else ANSND_VOICE_STATE_STOPPED);
              s \<leftarrow> (if \<not> has_flag (flags (ansnd_voices s i)) VOICE_FLAG_INITIALIZED
                     then ansnd_initialize_voice hw i s else Some s);
              s \<leftarrow> (if has_flag (flags (ansnd_voices s i)) VOICE_FLAG_PITCH_CHANGE
                     then
                       map_option (upd_voice i (clear_flags VOICE_FLAG_PITCH_CHANGE))
                         (ansnd_update_voice_pitch hw i
                            (upd_block k
                               (\<lambda>pb. if \<not> has_flag (pb_flags pb) VOICE_FLAG_ADPCM
                                      then pb\<lparr>pb_sample_buffer := replicate 16 0,
                                              pb_sample_buffer_2 := replicate 16 0\<rparr>
                                      else pb\<lparr>pb_sample_buffer := replicate 16 0\<rparr>)
                               s))
                     else Some s);
              let voice_state =
                    (if has_flag (pb_flags (ansnd_dsp_dram_image s k)) VOICE_FLAG_FINISHED
                     then ANSND_VOICE_STATE_FINISHED else voice_state);
              let s = sync_finished k i s;
              let s = sync_flags_diff k i s;
              let s = upd_block k
                        (\<lambda>pb. pb\<lparr>pb_left_volume := volume_word (left_volume (ansnd_voices s i)),
                                  pb_right_volume :=
                                    volume_word (right_volume (ansnd_voices s i))\<rparr>)
                        s;
              let s = upd_voice i (clear_flags VOICE_FLAG_UPDATED) s;
              Some (if voice_callback (ansnd_voices s i) \<noteq> 0
                    then emit (call_voice_callback (voice_callback (ansnd_voices s i))
                                 (user_pointer (ansnd_voices s i)) voice_state) s
                    else s)
            })"

section \<open>Streaming buffer exchange\<close>

text \<open>
  The stream callback is code of the user. What it stores into the zeroed buffer
  descriptor it is handed is a parameter of the model: a function of the callback, of
  the user pointer and of the number of events recorded before the call (so that the
  answers may differ from one call to the next). A call through a \<open>NULL\<close> callback
  pointer is \<open>None\<close>.
\<close>

record ansnd_pcm_data_buffer_t =
  buf_frame_data_ptr :: u32
  buf_frame_count :: u32

record ansnd_adpcm_data_buffer_t =
  buf_data_ptr :: u32
  buf_sample_count :: u32
  buf_predictor_scale :: u16
  buf_sample_history_1 :: u16
  buf_sample_history_2 :: u16

record stream_env =
  pcm_stream_data :: "u32 \<Rightarrow> u32 \<Rightarrow> nat \<Rightarrow> ansnd_pcm_data_buffer_t"
  adpcm_stream_data :: "u32 \<Rightarrow> u32 \<Rightarrow> nat \<Rightarrow> ansnd_adpcm_data_buffer_t"

definition ansnd_write_stream_buffers :: "nat \<Rightarrow> ansnd_state \<Rightarrow> ansnd_state option" where
  "ansnd_write_stream_buffers i s =
     (case parameter_block (ansnd_voices s i) of
        None \<Rightarrow> None
      | Some k \<Rightarrow>
          let voice = ansnd_voices s i;
              s = upd_block k
                    (\<lambda>pb. pb\<lparr>pb_next_buffer_start_high := HIGH (next_buffer_start voice),
                              pb_next_buffer_start_low := LOW (next_buffer_start voice),
                              pb_next_buffer_end_high := HIGH (next_buffer_end voice),
                              pb_next_buffer_end_low := LOW (next_buffer_end voice),
                              pb_next_buffer_current_high := HIGH (next_buffer_first voice),
                              pb_next_buffer_current_low := LOW (next_buffer_first voice)\<rparr>)
                    s;
              s = (if has_flag (flags voice) VOICE_FLAG_ADPCM
                   then upd_block k
                          (\<lambda>pb. pb\<lparr>pb_next_buffer_predictor_scale :=
                                      next_buffer_predictor_scale voice,
                                    pb_next_buffer_sample_history_1 :=
                                      next_buffer_sample_history_1 voice,
                                    pb_next_buffer_sample_history_2 :=
                                      next_buffer_sample_history_2 voice\<rparr>)
                          s
                   else s)
          in Some (upd_voice i
                     (\<lambda>v. v\<lparr>next_buffer_start := 0, next_buffer_end := 0,
                             next_buffer_first := 0\<rparr>)
                     s))"

definition ansnd_fill_stream_buffers ::
  "hardware \<Rightarrow> stream_env \<Rightarrow> nat \<Rightarrow> ansnd_state \<Rightarrow> ansnd_state option" where
  "ansnd_fill_stream_buffers hw env i s =
     (let voice = ansnd_voices s i
      in if stream_callback voice = 0 then None
         else
           let s' = emit (call_stream_callback (stream_callback voice) (user_pointer voice)) s
           in if has_flag (flags voice) VOICE_FLAG_ADPCM
              then
                (let data_buffer =
                       adpcm_stream_data env (stream_callback voice) (user_pointer voice)
                         (length (hw_events s))
                 in if buf_data_ptr data_buffer = 0 \<or> buf_sample_count data_buffer = 0
                      then Some s'
                    else if invalid_memory hw (buf_data_ptr data_buffer) then Some s'
                    else
                      Some (upd_voice i
                              (\<lambda>v. v\<lparr>next_buffer_start := push_bit 1 (buf_data_ptr data_buffer),
                                      next_buffer_end :=
                                        push_bit 1 (buf_data_ptr data_buffer)
                                        + SAMPLES_TO_NIBBLES (buf_sample_count data_buffer),
                                      next_buffer_first :=
                                        push_bit 1 (buf_data_ptr data_buffer)
                                        + SAMPLES_TO_NIBBLES 0,
                                      next_buffer_predictor_scale :=
                                        buf_predictor_scale data_buffer,
                                      next_buffer_sample_history_1 :=
                                        buf_sample_history_1 data_buffer,
                                      next_buffer_sample_history_2 :=
                                        buf_sample_history_2 data_buffer\<rparr>)
                              s'))
              else
                (let data_buffer =
                       pcm_stream_data env (stream_callback voice) (user_pointer voice)
                         (length (hw_events s))
                 in if buf_frame_data_ptr data_buffer = 0 \<or> buf_frame_count data_buffer = 0
                      then Some s'
                    else if invalid_memory hw (buf_frame_data_ptr data_buffer) then Some s'
                    else
                      let channels = (if has_flag (flags voice) VOICE_FLAG_STEREO
                                      then 2 else 1 :: u32);
                          memory_shift = (if accelerator_gain voice = DSP_ACCL_GAIN_16BIT
                                          then 1 else 0 :: nat);
                          start = drop_bit memory_shift (buf_frame_data_ptr data_buffer)
                      in Some (upd_voice i
                                 (\<lambda>v. v\<lparr>next_buffer_start := start,
                                         next_buffer_end :=
                                           start + buf_frame_count data_buffer * channels - 1,
                                         next_buffer_first := start\<rparr>)
                                 s')))"

definition ansnd_update_stream_buffers ::
  "hardware \<Rightarrow> stream_env \<Rightarrow> nat \<Rightarrow> ansnd_state \<Rightarrow> ansnd_state option" where
  "ansnd_update_stream_buffers hw env i s =
     do {
       s \<leftarrow> (if next_buffer_start (ansnd_voices s i) = 0
              then ansnd_fill_stream_buffers hw env i s else Some s);
       case parameter_block (ansnd_voices s i) of
         None \<Rightarrow> None
       | Some k \<Rightarrow>
           if pb_next_buffer_start_high (ansnd_dsp_dram_image s k) = 0
              \<and> pb_next_buffer_start_low (ansnd_dsp_dram_image s k) = 0
           then ansnd_write_stream_buffers i s
           else Some s
     }"

section \<open>Synchronization cycle\<close>

text \<open>
  The busy waits \<open>while (DSP_CheckMailTo());\<close> are taken to end: a mail sent is an
  event. Flushing and invalidating the data cache have no counterpart here.
\<close>

fun for_each_voice ::
  "(nat \<Rightarrow> ansnd_state \<Rightarrow> ansnd_state option) \<Rightarrow> nat list \<Rightarrow> ansnd_state \<Rightarrow> ansnd_state option" where
  "for_each_voice body [] s = Some s"
| "for_each_voice body (i # is) s =
     (case body i s of None \<Rightarrow> None | Some s' \<Rightarrow> for_each_voice body is s')"

definition request_voice :: "hardware \<Rightarrow> stream_env \<Rightarrow> nat \<Rightarrow> ansnd_state \<Rightarrow> ansnd_state option" where
  \<comment> \<open>the body of the loop over the voices in \<open>ansnd_dsp_request_callback\<close>\<close>
  "request_voice hw env i s =
     do {
       s \<leftarrow> (if has_flag (flags (ansnd_voices s i)) VOICE_FLAG_UPDATED
                 \<or> (case parameter_block (ansnd_voices s i) of
                       None \<Rightarrow> False
                     | Some k \<Rightarrow>
                         has_flag (pb_flags (ansnd_dsp_dram_image s k)) VOICE_FLAG_FINISHED)
              then ansnd_sync_voice hw i s else Some s);
       if \<not> has_flag (flags (ansnd_voices s i)) VOICE_FLAG_RUNNING then Some s
       else
         do {
           let s = s\<lparr>ansnd_active_voices := ansnd_active_voices s + 1\<rparr>;
           s \<leftarrow> (if has_flag (flags (ansnd_voices s i)) VOICE_FLAG_STREAMING
                     \<and> \<not> has_flag (flags (ansnd_voices s i)) VOICE_FLAG_LOOPED
                  then ansnd_update_stream_buffers hw env i s else Some s);
           if has_flag (flags (ansnd_voices s i)) VOICE_FLAG_DELAY
           then ansnd_update_voice_delay hw i s else Some s
         }
     }"

definition ansnd_dsp_request_callback ::
  "hardware \<Rightarrow> stream_env \<Rightarrow> ansnd_state \<Rightarrow> ansnd_state option" where
  "ansnd_dsp_request_callback hw env s =
     do {
       s \<leftarrow> for_each_voice (request_voice hw env) [0..<ANSND_MAX_VOICES]
              (s\<lparr>ansnd_dsp_done_mixing := True, ansnd_dsp_stalled := False,
                 ansnd_active_voices := 0\<rparr>);
       let s = emit (DSP_SendMailTo
                       (DSP_MAIL_COMMAND OR
                          (if ansnd_dsp_task_next s then DSP_MAIL_YIELD else DSP_MAIL_PREPARE)))
                 s
       in Some (if ansnd_audio_callback s \<noteq> 0
                then emit (call_audio_callback (ansnd_audio_callback s)
                             (ansnd_audio_buffer_out (ansnd_next_audio_buffer s))
                             ANSND_SOUND_BUFFER_SIZE (ansnd_audio_callback_arguments s)) s
                else s)
     }"

definition ansnd_audio_dma_callback :: "ansnd_state \<Rightarrow> ansnd_state" where
  "ansnd_audio_dma_callback s =
     (let s = (if ansnd_dsp_task_next s then emit DSP_AssertTask s else s)
      in if \<not> ansnd_dsp_done_mixing s
         then
           (let s = emit (AUDIO_InitDMA ansnd_mute_buffer_out ANSND_SOUND_BUFFER_SIZE) s;
                s = (if ansnd_dsp_stalled s \<and> ansnd_dsp_task_state s = DSPTASK_RUN
                     then emit (DSP_SendMailTo (DSP_MAIL_COMMAND OR DSP_MAIL_RESTART)) s
                     else s)
            in s\<lparr>ansnd_dsp_stalled := True\<rparr>)
         else
           (let s = s\<lparr>ansnd_dsp_done_mixing := False\<rparr>;
                s = (if ansnd_dsp_task_state s = DSPTASK_RUN
                     then emit (DSP_SendMailTo (DSP_MAIL_COMMAND OR DSP_MAIL_NEXT)) s
                     else s);
                s = emit (AUDIO_InitDMA (ansnd_audio_buffer_out (ansnd_next_audio_buffer s))
                            ANSND_SOUND_BUFFER_SIZE) s
            in s\<lparr>ansnd_next_audio_buffer := ansnd_next_audio_buffer s XOR 1\<rparr>))"

section \<open>Starting and ending the library\<close>

text \<open>
  Both functions wait, flashing the interrupts, until the platform library reports the
  state of the coprocessor task they wait for. What the interrupt handlers do to the
  state during one flash is the parameter \<open>flash\<close>; a wait that never ends is \<open>None\<close>.
\<close>

partial_function (option) wait_for_task ::
  "(ansnd_state \<Rightarrow> ansnd_state) \<Rightarrow> dsptask_state \<Rightarrow> ansnd_state \<Rightarrow> ansnd_state option" where
  "wait_for_task flash target s =
     (let s' = flash s
      in if ansnd_dsp_task_state s' \<noteq> target then wait_for_task flash target s' else Some s')"

definition ansnd_initialize_samplerate ::
  "(ansnd_state \<Rightarrow> ansnd_state) \<Rightarrow> u8 \<Rightarrow> ansnd_state \<Rightarrow> (int \<times> ansnd_state) option" where
  "ansnd_initialize_samplerate flash output_samplerate s =
     (if output_samplerate \<noteq> ANSND_OUTPUT_SAMPLERATE_32KHZ
         \<and> output_samplerate \<noteq> ANSND_OUTPUT_SAMPLERATE_48KHZ
      then Some (ANSND_ERROR_INVALID_INPUT, s)
      else
        do {
          let s = s\<lparr>ansnd_output_samplerate := output_samplerate\<rparr>;
          let s = emit (AUDIO_SetDSPSampleRate output_samplerate)
                    (emit AUDIO_StopDMA (emit AUDIO_Init (emit DSP_Init s)));
          s \<leftarrow> (if \<not> ansnd_library_initialized s
                 then wait_for_task flash DSPTASK_RUN
                        (emit DSP_AddTask
                           (s\<lparr>ansnd_library_initialized := True,
                              ansnd_dsp_done_mixing := False, ansnd_dsp_stalled := False,
                              ansnd_voices := (\<lambda>_. zero_voice),
                              ansnd_dsp_dram_image := (\<lambda>_. zero_parameter_block)\<rparr>))
                 else Some s);
          Some (ANSND_ERROR_OK,
                emit AUDIO_StartDMA
                  (emit (AUDIO_InitDMA ansnd_mute_buffer_out ANSND_SOUND_BUFFER_SIZE)
                     (emit (AUDIO_RegisterDMACallback True) s)))
        })"

definition ansnd_initialize ::
  "(ansnd_state \<Rightarrow> ansnd_state) \<Rightarrow> ansnd_state \<Rightarrow> ansnd_state option" where
  \<comment> \<open>the result of \<open>ansnd_initialize_samplerate\<close> is dropped\<close>
  "ansnd_initialize flash s =
     map_option snd (ansnd_initialize_samplerate flash ANSND_OUTPUT_SAMPLERATE_48KHZ s)"

definition ansnd_uninitialize :: "(ansnd_state \<Rightarrow> ansnd_state) \<Rightarrow> ansnd_state \<Rightarrow> ansnd_state option" where
  "ansnd_uninitialize flash s =
     (if ansnd_library_initialized s
      then
        map_option (\<lambda>s. s\<lparr>ansnd_library_initialized := False\<rparr>)
          (wait_for_task flash DSPTASK_DONE
             (emit (DSP_SendMailTo (DSP_MAIL_COMMAND OR DSP_MAIL_END))
                (emit DSP_CancelTask
                   (emit (AUDIO_RegisterDMACallback False) (emit AUDIO_StopDMA s)))))
      else Some s)"

definition ansnd_get_dsp_usage_percent ::
  "int \<Rightarrow> bool \<Rightarrow> ansnd_state \<Rightarrow> (int \<times> f32 option) \<times> ansnd_state" where
  \<comment> \<open>the first argument is \<open>ticks_to_microsecs(ansnd_dsp_process_time)\<close>, the flag tells
      whether the out-parameter is non-\<open>NULL\<close>\<close>
  "ansnd_get_dsp_usage_percent microsecs dsp_usage s =
     (if \<not> ansnd_library_initialized s then ((ANSND_ERROR_NOT_INITIALIZED, None), s)
      else if ansnd_dsp_stalled s then ((ANSND_ERROR_DSP_STALLED, None), s)
      else if \<not> dsp_usage then ((ANSND_ERROR_OK, None), s)
      else ((ANSND_ERROR_OK, Some (f32_div (f32_of_int microsecs) (Finite 2000))), s))"

definition ansnd_get_total_usage_percent ::
  "int \<Rightarrow> bool \<Rightarrow> ansnd_state \<Rightarrow> (int \<times> f32 option) \<times> ansnd_state" where
  \<comment> \<open>the first argument is \<open>ticks_to_microsecs(ansnd_total_process_time)\<close>\<close>
  "ansnd_get_total_usage_percent microsecs total_usage s =
     (if \<not> ansnd_library_initialized s then ((ANSND_ERROR_NOT_INITIALIZED, None), s)
      else if ansnd_dsp_stalled s then ((ANSND_ERROR_DSP_STALLED, None), s)
      else if \<not> total_usage then ((ANSND_ERROR_OK, None), s)
      else ((ANSND_ERROR_OK, Some (f32_div (f32_of_int microsecs) (Finite 2000))), s))"

section \<open>The coprocessor's choice of the resampling routine\<close>

text \<open>
  From \<open>dspmixer.s\<close>, "Resampling Function Pointer setup": the microcode takes
  \<open>resample_no_resample\<close> when the low word of the relative frequency is zero and
  bit 0 of its high word is set, and \<open>resample\<close> otherwise.
\<close>

definition dsp_no_resample :: "ansnd_parameter_block_t \<Rightarrow> bool" where
  "dsp_no_resample pb =
     (pb_relative_frequency_low pb = 0 \<and> pb_relative_frequency_high pb AND 0x0001 = 0x0001)"

definition relative_frequency_of :: "ansnd_parameter_block_t \<Rightarrow> u32" where
  \<comment> \<open>the 32-bit value the two halves \<open>relative_frequency_high\<close> and
      \<open>relative_frequency_low\<close> encode\<close>
  "relative_frequency_of pb =
     push_bit 16 (ucast (pb_relative_frequency_high pb)) OR ucast (pb_relative_frequency_low pb)"

section \<open>States to run the driver from\<close>

text \<open>
  The state the static initialisers of the file give, an environment in which the
  platform library reports the coprocessor task running at the first flash, and the
  state \<open>ansnd_initialize\<close> then leaves.
\<close>

definition power_on_state :: ansnd_state where
  "power_on_state =
     \<lparr>ansnd_audio_callback = 0, ansnd_audio_callback_arguments = 0,
      ansnd_next_audio_buffer = 0, ansnd_output_samplerate = ANSND_OUTPUT_SAMPLERATE_48KHZ,
      ansnd_library_initialized = False, ansnd_dsp_done_mixing = False,
      ansnd_dsp_stalled = False, ansnd_active_voices = 0,
      ansnd_voices = (\<lambda>_. zero_voice), ansnd_dsp_dram_image = (\<lambda>_. zero_parameter_block),
      ansnd_dsp_task_state = DSPTASK_INIT, ansnd_dsp_task_next = False, hw_events = []\<rparr>"

definition task_runs :: "ansnd_state \<Rightarrow> ansnd_state" where
  "task_runs s = s\<lparr>ansnd_dsp_task_state := DSPTASK_RUN\<rparr>"

definition booted_state :: ansnd_state where
  "booted_state =
     \<lparr>ansnd_audio_callback = 0, ansnd_audio_callback_arguments = 0,
      ansnd_next_audio_buffer = 0, ansnd_output_samplerate = ANSND_OUTPUT_SAMPLERATE_48KHZ,
      ansnd_library_initialized = True, ansnd_dsp_done_mixing = False,
      ansnd_dsp_stalled = False, ansnd_active_voices = 0,
      ansnd_voices = (\<lambda>_. zero_voice), ansnd_dsp_dram_image = (\<lambda>_. zero_parameter_block),
      ansnd_dsp_task_state = DSPTASK_RUN, ansnd_dsp_task_next = False,
      hw_events = [DSP_Init, AUDIO_Init, AUDIO_StopDMA,
                   AUDIO_SetDSPSampleRate ANSND_OUTPUT_SAMPLERATE_48KHZ, DSP_AddTask,
                   AUDIO_RegisterDMACallback True,
                   AUDIO_InitDMA ansnd_mute_buffer_out ANSND_SOUND_BUFFER_SIZE,
                   AUDIO_StartDMA]\<rparr>"

definition reinitialized_state :: ansnd_state where
  "reinitialized_state =
     emit AUDIO_StartDMA
       (emit (AUDIO_InitDMA ansnd_mute_buffer_out ANSND_SOUND_BUFFER_SIZE)
          (emit (AUDIO_RegisterDMACallback True)
             (emit (AUDIO_SetDSPSampleRate ANSND_OUTPUT_SAMPLERATE_32KHZ)
                (emit AUDIO_StopDMA
                   (emit AUDIO_Init
                      (emit DSP_Init
                         (booted_state
                            \<lparr>ansnd_output_samplerate := ANSND_OUTPUT_SAMPLERATE_32KHZ\<rparr>)))))))"

definition wii :: hardware where
  "wii = HW_RVL 0x80000000"

definition example_pcm_config :: ansnd_pcm_voice_config_t where
  "example_pcm_config =
     \<lparr>pcm_samplerate = 48000, pcm_format = ANSND_VOICE_PCM_FORMAT_SIGNED_16_PCM,
      pcm_channels = 1, pcm_delay = 0, pcm_pitch = Finite 1, pcm_left_volume = Finite 1,
      pcm_right_volume = Finite 1, pcm_frame_data_ptr = 0x10000000, pcm_frame_count = 1000,
      pcm_start_offset = 0, pcm_loop_start_offset = 0, pcm_loop_end_offset = 0,
      pcm_voice_callback = 0, pcm_stream_callback = 0, pcm_user_pointer = 0\<rparr>"

definition allocated_state :: ansnd_state where
  "allocated_state = snd (ansnd_allocate_voice booted_state)"

definition configured_state :: ansnd_state where
  "configured_state =
     snd (ansnd_configure_pcm_voice wii 0 (Some example_pcm_config) allocated_state)"

definition stalled_state :: ansnd_state where
  "stalled_state = ansnd_audio_dma_callback booted_state"

definition task_done :: "ansnd_state \<Rightarrow> ansnd_state" where
  "task_done s = s\<lparr>ansnd_dsp_task_state := DSPTASK_DONE\<rparr>"

definition example_loop_config :: ansnd_pcm_voice_config_t where
  "example_loop_config =
     example_pcm_config\<lparr>pcm_loop_start_offset := 100, pcm_loop_end_offset := 900\<rparr>"

definition yielded_stalled_state :: ansnd_state where
  "yielded_stalled_state = stalled_state\<lparr>ansnd_dsp_task_state := DSPTASK_YIELD\<rparr>"

definition ended_stalled_state :: ansnd_state where
  "ended_stalled_state =
     (task_done
        (emit (DSP_SendMailTo (DSP_MAIL_COMMAND OR DSP_MAIL_END))
           (emit DSP_CancelTask
              (emit (AUDIO_RegisterDMACallback False) (emit AUDIO_StopDMA stalled_state)))))
       \<lparr>ansnd_library_initialized := False\<rparr>"

definition example_stream_config :: ansnd_pcm_voice_config_t where
  "example_stream_config = example_pcm_config\<lparr>pcm_stream_callback := 0x80003000\<rparr>"

definition streaming_state :: ansnd_state where
  "streaming_state =
     snd (ansnd_configure_pcm_voice wii 0 (Some example_stream_config) allocated_state)"



definition streamed_state :: ansnd_state where
  "streamed_state =
     upd_voice 0 (\<lambda>v. v\<lparr>next_buffer_start := 0, next_buffer_end := 0, next_buffer_first := 0\<rparr>)
       (upd_block 0
          (\<lambda>pb. pb\<lparr>pb_next_buffer_start_high := 0x0800, pb_next_buffer_start_low := 0x1000,
                    pb_next_buffer_end_high := 0x0800, pb_next_buffer_end_low := 0x11FF,
                    pb_next_buffer_current_high := 0x0800,
                    pb_next_buffer_current_low := 0x1000\<rparr>)
          (upd_voice 0
             (\<lambda>v. v\<lparr>next_buffer_start := 0x08001000, next_buffer_end := 0x080011FF,
                     next_buffer_first := 0x08001000\<rparr>)
             (emit (call_stream_callback 0x80003000 0) streaming_state)))"

definition pending_state :: ansnd_state where
  "pending_state =
     upd_voice 0 (set_flags VOICE_FLAG_RUNNING \<circ> clear_flags VOICE_FLAG_UPDATED)
       streamed_state"


text \<open>
  Calls of \<open>ansnd_allocate_voice\<close> in succession, with the list of what they return.
\<close>

fun allocate_many :: "nat \<Rightarrow> ansnd_state \<Rightarrow> int list \<times> ansnd_state" where
  "allocate_many 0 s = ([], s)"
| "allocate_many (Suc n) s =
     (let (ids, s') = allocate_many n s;
          (voice_id, s'') = ansnd_allocate_voice s'
      in (ids @ [voice_id], s''))"

definition full_state :: ansnd_state where
  "full_state = snd (allocate_many ANSND_MAX_VOICES booted_state)"

definition configured_full_state :: ansnd_state where
  "configured_full_state =
     snd (ansnd_configure_pcm_voice wii 0 (Some example_pcm_config) full_state)"

definition detuned_state :: ansnd_state where
  "detuned_state =
     snd (ansnd_configure_pcm_voice wii 0
            (Some (example_pcm_config\<lparr>pcm_samplerate := 24026\<rparr>)) allocated_state)"

definition edge_state :: ansnd_state where
  "edge_state =
     snd (ansnd_configure_pcm_voice wii 0
            (Some (example_pcm_config\<lparr>pcm_samplerate := 95625, pcm_pitch := Finite (1 / 2)\<rparr>))
            allocated_state)"

definition double_state :: ansnd_state where
  "double_state =
     snd (ansnd_configure_pcm_voice wii 0
            (Some (example_pcm_config\<lparr>pcm_samplerate := 96000\<rparr>)) allocated_state)"

section \<open>Helper lemmas\<close>

lemmas error_defs =
  ANSND_ERROR_OK_def ANSND_ERROR_NOT_INITIALIZED_def ANSND_ERROR_INVALID_CONFIGURATION_def
  ANSND_ERROR_INVALID_INPUT_def ANSND_ERROR_INVALID_SAMPLERATE_def
  ANSND_ERROR_INVALID_MEMORY_def ANSND_ERROR_ALL_VOICES_USED_def
  ANSND_ERROR_VOICE_ID_NOT_ALLOCATED_def ANSND_ERROR_VOICE_NOT_CONFIGURED_def
  ANSND_ERROR_VOICE_NOT_INITIALIZED_def ANSND_ERROR_VOICE_RUNNING_def
  ANSND_ERROR_VOICE_ALREADY_LINKED_def ANSND_ERROR_VOICE_NOT_LINKED_def
  ANSND_ERROR_DSP_STALLED_def

lemmas flag_defs =
  VOICE_FLAG_PITCH_CHANGE_def VOICE_FLAG_CONFIGURED_def VOICE_FLAG_USED_def
  VOICE_FLAG_UPDATED_def VOICE_FLAG_INITIALIZED_def VOICE_FLAG_ERASED_def
  VOICE_FLAG_RUNNING_def VOICE_FLAG_FINISHED_def VOICE_FLAG_PAUSED_def VOICE_FLAG_DELAY_def
  VOICE_FLAG_STREAMING_def VOICE_FLAG_LOOPED_def VOICE_FLAG_ADPCM_def VOICE_FLAG_STEREO_def

lemma has_flag_or: "has_flag (a OR b) m = (has_flag a m \<or> has_flag b m)"
  by (auto simp add: has_flag_def bit.conj_disj_distrib2 or_eq_0_iff)




lemma has_flag_zero: "has_flag 0 m = False"
  by (simp add: has_flag_def)

lemma wait_for_task_now:
  "ansnd_dsp_task_state (flash s) = target \<Longrightarrow> wait_for_task flash target s = Some (flash s)"
  by (subst wait_for_task.simps) (simp add: Let_def)

lemma initialize_power_on:
  "ansnd_initialize_samplerate task_runs ANSND_OUTPUT_SAMPLERATE_48KHZ power_on_state
     = Some (ANSND_ERROR_OK, booted_state)"
  by (simp add: ansnd_initialize_samplerate_def power_on_state_def booted_state_def
      wait_for_task_now task_runs_def emit_def ANSND_OUTPUT_SAMPLERATE_48KHZ_def
      ANSND_OUTPUT_SAMPLERATE_32KHZ_def)

section \<open>The audio callback registration\<close>

lemma initialize_bad_rate:
  "output_samplerate \<noteq> ANSND_OUTPUT_SAMPLERATE_32KHZ \<Longrightarrow>
   output_samplerate \<noteq> ANSND_OUTPUT_SAMPLERATE_48KHZ \<Longrightarrow>
   ansnd_initialize_samplerate flash output_samplerate s = Some (ANSND_ERROR_INVALID_INPUT, s)"
  by (simp add: ansnd_initialize_samplerate_def)

lemma initialize_again:
  "ansnd_library_initialized s \<Longrightarrow>
   output_samplerate = ANSND_OUTPUT_SAMPLERATE_32KHZ
     \<or> output_samplerate = ANSND_OUTPUT_SAMPLERATE_48KHZ \<Longrightarrow>
   ansnd_initialize_samplerate flash output_samplerate s
     = Some (ANSND_ERROR_OK,
             emit AUDIO_StartDMA
               (emit (AUDIO_InitDMA ansnd_mute_buffer_out ANSND_SOUND_BUFFER_SIZE)
                  (emit (AUDIO_RegisterDMACallback True)
                     (emit (AUDIO_SetDSPSampleRate output_samplerate)
                        (emit AUDIO_StopDMA
                           (emit AUDIO_Init
                              (emit DSP_Init
                                 (s\<lparr>ansnd_output_samplerate := output_samplerate\<rparr>))))))))"
  by (auto simp add: ansnd_initialize_samplerate_def emit_def Let_def)

text \<open>
  Claim C10, as amended. \<open>ansnd_register_audio_callback\<close> returns \<open>ANSND_ERROR_OK\<close> and
  stores the callback and its argument in every state, initialised or not. It is not the
  only public function that does not test the flag first: \<open>ansnd_initialize_samplerate\<close>
  (and \<open>ansnd_initialize\<close>, which calls it) returns \<open>ANSND_ERROR_INVALID_INPUT\<close> for a
  bad rate in every state and, on a library that is initialised already, stores the new
  rate and resets the audio hardware. Every other voice or query function of the public
  interface returns \<open>ANSND_ERROR_NOT_INITIALIZED\<close> and changes nothing while the library
  is not initialised, and \<open>ansnd_uninitialize\<close> then does nothing.
\<close>

theorem register_audio_callback_unconditional:
  "ansnd_register_audio_callback callback arguments s
     = (ANSND_ERROR_OK,
        s\<lparr>ansnd_audio_callback := callback, ansnd_audio_callback_arguments := arguments\<rparr>)
   \<and> (rate \<noteq> ANSND_OUTPUT_SAMPLERATE_32KHZ \<and> rate \<noteq> ANSND_OUTPUT_SAMPLERATE_48KHZ \<longrightarrow>
        ansnd_initialize_samplerate flash rate s = Some (ANSND_ERROR_INVALID_INPUT, s))
   \<and> (ansnd_library_initialized s
        \<and> (rate = ANSND_OUTPUT_SAMPLERATE_32KHZ \<or> rate = ANSND_OUTPUT_SAMPLERATE_48KHZ) \<longrightarrow>
        ansnd_initialize_samplerate flash rate s
          = Some (ANSND_ERROR_OK,
                  emit AUDIO_StartDMA
                    (emit (AUDIO_InitDMA ansnd_mute_buffer_out ANSND_SOUND_BUFFER_SIZE)
                       (emit (AUDIO_RegisterDMACallback True)
                          (emit (AUDIO_SetDSPSampleRate rate)
                             (emit AUDIO_StopDMA
                                (emit AUDIO_Init
                                   (emit DSP_Init
                                      (s\<lparr>ansnd_output_samplerate := rate\<rparr>)))))))))
   \<and> ansnd_initialize flash s
       = map_option snd (ansnd_initialize_samplerate flash ANSND_OUTPUT_SAMPLERATE_48KHZ s)
   \<and> (\<not> ansnd_library_initialized s \<longrightarrow>
        ansnd_allocate_voice s = (ANSND_ERROR_NOT_INITIALIZED, s)
      \<and> ansnd_deallocate_voice v s = (ANSND_ERROR_NOT_INITIALIZED, s)
      \<and> ansnd_configure_pcm_voice hw v pc s = (ANSND_ERROR_NOT_INITIALIZED, s)
      \<and> ansnd_configure_adpcm_voice hw v ac s = (ANSND_ERROR_NOT_INITIALIZED, s)
      \<and> ansnd_link_voices v w s = (ANSND_ERROR_NOT_INITIALIZED, s)
      \<and> ansnd_unlink_voice v s = (ANSND_ERROR_NOT_INITIALIZED, s)
      \<and> ansnd_start_voice v s = (ANSND_ERROR_NOT_INITIALIZED, s)
      \<and> ansnd_stop_voice v s = (ANSND_ERROR_NOT_INITIALIZED, s)
      \<and> ansnd_pause_voice v s = (ANSND_ERROR_NOT_INITIALIZED, s)
      \<and> ansnd_unpause_voice v s = (ANSND_ERROR_NOT_INITIALIZED, s)
      \<and> ansnd_stop_looping v s = (ANSND_ERROR_NOT_INITIALIZED, s)
      \<and> ansnd_set_voice_volume v l r s = (ANSND_ERROR_NOT_INITIALIZED, s)
      \<and> ansnd_set_voice_pitch hw v p s = (ANSND_ERROR_NOT_INITIALIZED, s)
      \<and> ansnd_get_dsp_usage_percent t b s = ((ANSND_ERROR_NOT_INITIALIZED, None), s)
      \<and> ansnd_get_total_usage_percent t b s = ((ANSND_ERROR_NOT_INITIALIZED, None), s)
      \<and> ansnd_get_total_active_voices b s = ((ANSND_ERROR_NOT_INITIALIZED, None), s)
      \<and> ansnd_uninitialize flash s = Some s)"
proof -
  have "\<not> ansnd_library_initialized s \<longrightarrow>
        ansnd_allocate_voice s = (ANSND_ERROR_NOT_INITIALIZED, s)
      \<and> ansnd_deallocate_voice v s = (ANSND_ERROR_NOT_INITIALIZED, s)
      \<and> ansnd_configure_pcm_voice hw v pc s = (ANSND_ERROR_NOT_INITIALIZED, s)
      \<and> ansnd_configure_adpcm_voice hw v ac s = (ANSND_ERROR_NOT_INITIALIZED, s)
      \<and> ansnd_link_voices v w s = (ANSND_ERROR_NOT_INITIALIZED, s)
      \<and> ansnd_unlink_voice v s = (ANSND_ERROR_NOT_INITIALIZED, s)
      \<and> ansnd_start_voice v s = (ANSND_ERROR_NOT_INITIALIZED, s)
      \<and> ansnd_stop_voice v s = (ANSND_ERROR_NOT_INITIALIZED, s)
      \<and> ansnd_pause_voice v s = (ANSND_ERROR_NOT_INITIALIZED, s)
      \<and> ansnd_unpause_voice v s = (ANSND_ERROR_NOT_INITIALIZED, s)
      \<and> ansnd_stop_looping v s = (ANSND_ERROR_NOT_INITIALIZED, s)
      \<and> ansnd_set_voice_volume v l r s = (ANSND_ERROR_NOT_INITIALIZED, s)
      \<and> ansnd_set_voice_pitch hw v p s = (ANSND_ERROR_NOT_INITIALIZED, s)
      \<and> ansnd_get_dsp_usage_percent t b s = ((ANSND_ERROR_NOT_INITIALIZED, None), s)
      \<and> ansnd_get_total_usage_percent t b s = ((ANSND_ERROR_NOT_INITIALIZED, None), s)
      \<and> ansnd_get_total_active_voices b s = ((ANSND_ERROR_NOT_INITIALIZED, None), s)
      \<and> ansnd_uninitialize flash s = Some s"
    by (simp add: ansnd_allocate_voice_def
      ansnd_deallocate_voice_def ansnd_configure_pcm_voice_def ansnd_configure_adpcm_voice_def
      ansnd_link_voices_def ansnd_unlink_voice_def ansnd_start_voice_def ansnd_stop_voice_def
      ansnd_pause_voice_def ansnd_unpause_voice_def ansnd_stop_looping_def
      ansnd_set_voice_volume_def ansnd_set_voice_pitch_def ansnd_get_dsp_usage_percent_def
      ansnd_get_total_usage_percent_def ansnd_get_total_active_voices_def
      ansnd_uninitialize_def)
  moreover have "ansnd_register_audio_callback callback arguments s
     = (ANSND_ERROR_OK,
        s\<lparr>ansnd_audio_callback := callback, ansnd_audio_callback_arguments := arguments\<rparr>)"
    by (simp add: ansnd_register_audio_callback_def)
  ultimately show ?thesis
    using initialize_bad_rate [of rate flash s] initialize_again [of s rate flash]
    by (simp add: ansnd_initialize_def)
qed

theorem register_audio_callback_unconditional_witness:
  "\<not> ansnd_library_initialized power_on_state
   \<and> (2 :: u8) \<noteq> ANSND_OUTPUT_SAMPLERATE_32KHZ \<and> (2 :: u8) \<noteq> ANSND_OUTPUT_SAMPLERATE_48KHZ
   \<and> ansnd_register_audio_callback 0x80001000 0x80002000 power_on_state
       = (ANSND_ERROR_OK,
          power_on_state\<lparr>ansnd_audio_callback := 0x80001000,
                          ansnd_audio_callback_arguments := 0x80002000\<rparr>)
   \<and> ansnd_initialize_samplerate task_runs 2 power_on_state
       = Some (ANSND_ERROR_INVALID_INPUT, power_on_state)
   \<and> ansnd_start_voice 0 power_on_state = (ANSND_ERROR_NOT_INITIALIZED, power_on_state)
   \<and> ansnd_allocate_voice power_on_state = (ANSND_ERROR_NOT_INITIALIZED, power_on_state)"
  using register_audio_callback_unconditional
          [of "0x80001000" "0x80002000" power_on_state 2 task_runs 0]
  by (simp add: power_on_state_def ANSND_OUTPUT_SAMPLERATE_32KHZ_def
      ANSND_OUTPUT_SAMPLERATE_48KHZ_def)

text \<open>
  Claim C10 as stated fails in its last part: \<open>ansnd_initialize_samplerate\<close> is public and
  does not test the flag first. On a library that is not initialised it returns
  \<open>ANSND_ERROR_INVALID_INPUT\<close> for the rate 2, and on one that is initialised it returns
  \<open>ANSND_ERROR_OK\<close> after changing the output rate and resetting the audio hardware.
\<close>

theorem register_audio_callback_only_counterexample:
  "\<not> ansnd_library_initialized power_on_state
   \<and> ansnd_initialize_samplerate task_runs 2 power_on_state
       = Some (ANSND_ERROR_INVALID_INPUT, power_on_state)
   \<and> ANSND_ERROR_INVALID_INPUT \<noteq> ANSND_ERROR_NOT_INITIALIZED
   \<and> ansnd_library_initialized booted_state
   \<and> ansnd_initialize_samplerate task_runs ANSND_OUTPUT_SAMPLERATE_32KHZ booted_state
       = Some (ANSND_ERROR_OK, reinitialized_state)
   \<and> ansnd_output_samplerate reinitialized_state \<noteq> ansnd_output_samplerate booted_state"
proof -
  have "ansnd_initialize_samplerate task_runs 2 power_on_state
       = Some (ANSND_ERROR_INVALID_INPUT, power_on_state)"
    by (rule initialize_bad_rate)
       (simp_all add: ANSND_OUTPUT_SAMPLERATE_32KHZ_def ANSND_OUTPUT_SAMPLERATE_48KHZ_def)
  moreover have "ansnd_library_initialized booted_state"
    by (simp add: booted_state_def)
  moreover from this
  have "ansnd_initialize_samplerate task_runs ANSND_OUTPUT_SAMPLERATE_32KHZ booted_state
       = Some (ANSND_ERROR_OK, reinitialized_state)"
    by (simp add: initialize_again reinitialized_state_def)
  moreover have "ansnd_output_samplerate reinitialized_state
                   \<noteq> ansnd_output_samplerate booted_state"
    by (simp add: reinitialized_state_def emit_def booted_state_def
        ANSND_OUTPUT_SAMPLERATE_32KHZ_def ANSND_OUTPUT_SAMPLERATE_48KHZ_def)
  ultimately show ?thesis
    by (simp add: power_on_state_def error_defs)
qed

lemma upd_voice_proj [simp]:
  "ansnd_voices (upd_voice i f s) = (ansnd_voices s)(i := f (ansnd_voices s i))"
  "ansnd_dsp_dram_image (upd_voice i f s) = ansnd_dsp_dram_image s"
  "ansnd_library_initialized (upd_voice i f s) = ansnd_library_initialized s"
  "ansnd_dsp_stalled (upd_voice i f s) = ansnd_dsp_stalled s"
  "ansnd_dsp_done_mixing (upd_voice i f s) = ansnd_dsp_done_mixing s"
  "ansnd_output_samplerate (upd_voice i f s) = ansnd_output_samplerate s"
  "ansnd_audio_callback (upd_voice i f s) = ansnd_audio_callback s"
  "ansnd_audio_callback_arguments (upd_voice i f s) = ansnd_audio_callback_arguments s"
  "ansnd_next_audio_buffer (upd_voice i f s) = ansnd_next_audio_buffer s"
  "ansnd_dsp_task_state (upd_voice i f s) = ansnd_dsp_task_state s"
  "ansnd_dsp_task_next (upd_voice i f s) = ansnd_dsp_task_next s"
  "ansnd_active_voices (upd_voice i f s) = ansnd_active_voices s"
  "hw_events (upd_voice i f s) = hw_events s"
  by (simp_all add: upd_voice_def)

lemma flags_proj [simp]:
  "flags (set_flags m v) = flags v OR m"
  "flags (clear_flags m v) = flags v AND NOT m"
  "parameter_block (set_flags m v) = parameter_block v"
  "parameter_block (clear_flags m v) = parameter_block v"
  "linked_voice (set_flags m v) = linked_voice v"
  "linked_voice (clear_flags m v) = linked_voice v"
  by (simp_all add: set_flags_def clear_flags_def)

lemma max_samplerate_proj [simp]:
  "max_samplerate hw (upd_voice i f s) = max_samplerate hw s"
  by (simp add: max_samplerate_def)

lemma pcm_code:
  assumes "unat v < ANSND_MAX_VOICES"
      "has_flag (flags (ansnd_voices s (unat v))) VOICE_FLAG_USED"
  shows "(fst (ansnd_configure_pcm_voice hw v (Some c) s) = ANSND_ERROR_INVALID_SAMPLERATE)
     \<longleftrightarrow> ansnd_library_initialized s
         \<and> (f32_less (f32_mul (f32_of_u32 (pcm_samplerate c)) (pcm_pitch c)) (Finite 50)
            \<or> f32_less (max_samplerate hw s)
                 (f32_mul (f32_of_u32 (pcm_samplerate c)) (pcm_pitch c)))"
  using assms
  by (simp add: ansnd_configure_pcm_voice_def Let_def error_defs)

lemma adpcm_code:
  assumes "unat v < ANSND_MAX_VOICES"
      "has_flag (flags (ansnd_voices s (unat v))) VOICE_FLAG_USED"
  shows "(fst (ansnd_configure_adpcm_voice hw v (Some c) s) = ANSND_ERROR_INVALID_SAMPLERATE)
     \<longleftrightarrow> ansnd_library_initialized s
         \<and> (f32_less (f32_mul (f32_of_u32 (adpcm_samplerate c)) (adpcm_pitch c)) (Finite 50)
            \<or> f32_less (max_samplerate hw s)
                 (f32_mul (f32_of_u32 (adpcm_samplerate c)) (adpcm_pitch c)))"
  using assms
  by (simp add: ansnd_configure_adpcm_voice_def Let_def error_defs)

lemma pitch_code:
  assumes "unat v < ANSND_MAX_VOICES"
      "has_flag (flags (ansnd_voices s (unat v))) VOICE_FLAG_USED"
      "has_flag (flags (ansnd_voices s (unat v))) VOICE_FLAG_CONFIGURED"
      "\<not> has_flag (flags (ansnd_voices s (unat v))) VOICE_FLAG_RUNNING"
  shows "(fst (ansnd_set_voice_pitch hw v p s) = ANSND_ERROR_INVALID_SAMPLERATE)
     \<longleftrightarrow> ansnd_library_initialized s
         \<and> (f32_less (f32_mul (f32_of_u32 (samplerate (ansnd_voices s (unat v)))) p)
              (Finite 50)
            \<or> f32_less (max_samplerate hw s)
                 (f32_mul (f32_of_u32 (samplerate (ansnd_voices s (unat v)))) p))"
  using assms
  by (simp add: ansnd_set_voice_pitch_def Let_def error_defs)

lemma f32_less_irrefl [simp]: "\<not> f32_less x x"
  by (cases x) simp_all

lemma f32_less_NaN [simp]: "\<not> f32_less NaN x" "\<not> f32_less x NaN"
  by (cases x; simp)+

lemma f32_mul_NaN [simp]: "f32_mul x NaN = NaN" "f32_mul NaN x = NaN"
  by (cases x; simp)+

lemma pcm_ok_fields:
  assumes "ansnd_configure_pcm_voice hw v (Some c) s = (ANSND_ERROR_OK, t)"
  shows "ram_buffer_start (ansnd_voices t (unat v))
           = drop_bit (if pcm_format c = ANSND_VOICE_PCM_FORMAT_SIGNED_16_PCM then 1 else 0)
               (pcm_frame_data_ptr c)"
    and "pcm_loop_start_offset c = 0 \<and> pcm_loop_end_offset c = 0 \<Longrightarrow>
          \<not> has_flag (flags (ansnd_voices t (unat v))) VOICE_FLAG_LOOPED"
    and "pcm_loop_start_offset c \<noteq> 0 \<or> pcm_loop_end_offset c \<noteq> 0 \<Longrightarrow>
          has_flag (flags (ansnd_voices t (unat v))) VOICE_FLAG_LOOPED
          \<and> loop_start (ansnd_voices t (unat v))
              = ram_buffer_start (ansnd_voices t (unat v))
                + pcm_loop_start_offset c * ucast (pcm_channels c)
          \<and> loop_end (ansnd_voices t (unat v))
              = ram_buffer_start (ansnd_voices t (unat v))
                + pcm_loop_end_offset c * ucast (pcm_channels c) - 1"
  using assms
  by (auto simp add: ansnd_configure_pcm_voice_def Let_def error_defs has_flag_or has_flag_zero
       loop_start_def loop_end_def zero_voice_def set_flags_def has_flag_def flag_defs
       split: if_splits)

lemma find_first:
  "k < n \<Longrightarrow> P k \<Longrightarrow> (\<forall>j<k. \<not> P j) \<Longrightarrow> find P [0..<n] = Some k"
  by (auto simp add: find_Some_iff intro!: exI [of _ k])


lemma booted_proj [simp]:
  "ansnd_library_initialized booted_state" "\<not> ansnd_dsp_stalled booted_state"
  "\<not> ansnd_dsp_done_mixing booted_state"
  "ansnd_voices booted_state = (\<lambda>_. zero_voice)"
  "ansnd_output_samplerate booted_state = ANSND_OUTPUT_SAMPLERATE_48KHZ"
  "ansnd_dsp_task_state booted_state = DSPTASK_RUN"
  "\<not> ansnd_dsp_task_next booted_state"
  "ansnd_dsp_dram_image booted_state = (\<lambda>_. zero_parameter_block)"
  by (simp_all add: booted_state_def)

lemma zero_voice_proj [simp]:
  "flags zero_voice = 0" "linked_voice zero_voice = None" "parameter_block zero_voice = None"
  by (simp_all add: zero_voice_def)

lemma allocated_state_eq:
  "ansnd_allocate_voice booted_state
     = (0, upd_voice 0 (\<lambda>_. zero_voice\<lparr>flags := VOICE_FLAG_USED\<rparr>) booted_state)"
  "allocated_state = upd_voice 0 (\<lambda>_. zero_voice\<lparr>flags := VOICE_FLAG_USED\<rparr>) booted_state"
  by (simp_all add: allocated_state_def ansnd_allocate_voice_def ANSND_MAX_VOICES_def
       find_first [of 0] has_flag_zero)

lemma f32_192000: "f32_mul (f32_of_u32 192000) (Finite 1) = Finite 192000"
  by code_simp

lemma f32_48000: "f32_mul (f32_of_u32 48000) (Finite 1) = Finite 48000"
  by code_simp

lemma f32_16: "f32_mul (f32_of_u32 16) (Finite 1) = Finite 16"
  by code_simp

lemma f32_max48:
  "f32_mul (f32_div (Finite 54000000) (Finite 1125)) (Finite 4) = Finite 192000"
  by code_simp

lemma max_wii_48 [simp]:
  "ansnd_output_samplerate s = ANSND_OUTPUT_SAMPLERATE_48KHZ \<Longrightarrow>
     max_samplerate wii s = Finite 192000"
  by (simp add: max_samplerate_def wii_def ANSND_MAX_SAMPLERATE_48KHZ_def
      ANSND_DSP_FREQ_48KHZ_def f32_max48 ANSND_OUTPUT_SAMPLERATE_48KHZ_def
      ANSND_OUTPUT_SAMPLERATE_32KHZ_def del: f32_div.simps f32_mul.simps)

lemma wii_memory: "invalid_memory wii p = (p AND 0x80000000 \<noteq> 0)"
  by (simp add: invalid_memory_def wii_def)

lemma allocated_proj [simp]:
  "ansnd_library_initialized allocated_state" "\<not> ansnd_dsp_stalled allocated_state"
  "ansnd_output_samplerate allocated_state = ANSND_OUTPUT_SAMPLERATE_48KHZ"
  "flags (ansnd_voices allocated_state 0) = VOICE_FLAG_USED"
  "linked_voice (ansnd_voices allocated_state 0) = None"
  by (simp_all add: allocated_state_eq)

lemma used_used [simp]: "has_flag VOICE_FLAG_USED VOICE_FLAG_USED"
  by (simp add: has_flag_def VOICE_FLAG_USED_def)

lemma configure_boundary:
  "fst (ansnd_configure_pcm_voice wii 0
          (Some (example_pcm_config\<lparr>pcm_samplerate := 192000\<rparr>)) allocated_state)
     = ANSND_ERROR_OK"
  by (simp add: ansnd_configure_pcm_voice_def example_pcm_config_def ANSND_MAX_VOICES_def
      f32_192000 wii_memory ANSND_VOICE_PCM_FORMAT_SIGNED_16_PCM_def
      ANSND_VOICE_PCM_FORMAT_UNSET_def Let_def)

lemma configure_nan:
  "fst (ansnd_configure_pcm_voice wii 0
          (Some (example_pcm_config\<lparr>pcm_pitch := NaN\<rparr>)) allocated_state)
     = ANSND_ERROR_OK"
  by (simp add: ansnd_configure_pcm_voice_def example_pcm_config_def ANSND_MAX_VOICES_def
      wii_memory ANSND_VOICE_PCM_FORMAT_SIGNED_16_PCM_def
      ANSND_VOICE_PCM_FORMAT_UNSET_def Let_def)

lemma configured_state_eq:
  "ansnd_configure_pcm_voice wii 0 (Some example_pcm_config) allocated_state
      = (ANSND_ERROR_OK, configured_state)"
  by (simp add: configured_state_def ansnd_configure_pcm_voice_def example_pcm_config_def ANSND_MAX_VOICES_def
      f32_48000 wii_memory set_flags_def ANSND_VOICE_PCM_FORMAT_SIGNED_16_PCM_def
      ANSND_VOICE_PCM_FORMAT_UNSET_def Let_def)

lemma configured_proj [simp]:
  "ansnd_library_initialized configured_state" "\<not> ansnd_dsp_stalled configured_state"
  "ansnd_output_samplerate configured_state = ANSND_OUTPUT_SAMPLERATE_48KHZ"
  "flags (ansnd_voices configured_state 0) = 0x1C00"
  "samplerate (ansnd_voices configured_state 0) = 48000"
  "parameter_block (ansnd_voices configured_state 0) = Some 0"
  by (simp_all add: configured_state_def ansnd_configure_pcm_voice_def example_pcm_config_def ANSND_MAX_VOICES_def
      f32_48000 wii_memory set_flags_def ANSND_VOICE_PCM_FORMAT_SIGNED_16_PCM_def
      ANSND_VOICE_PCM_FORMAT_UNSET_def Let_def ANSND_VOICE_PCM_FORMAT_SIGNED_8_PCM_def
      flag_defs has_flag_def)

lemma stalled_state_eq:
  "stalled_state = booted_state\<lparr>ansnd_dsp_stalled := True,
      hw_events := hw_events booted_state @ [AUDIO_InitDMA ansnd_mute_buffer_out ANSND_SOUND_BUFFER_SIZE]\<rparr>"
  by (simp add: stalled_state_def ansnd_audio_dma_callback_def booted_state_def emit_def Let_def)

lemma link_second_out_of_range:
  assumes "ansnd_library_initialized s" and "ANSND_MAX_VOICES \<le> unat voice_id"
  shows "ansnd_link_voices other voice_id s
         = (if ANSND_MAX_VOICES \<le> unat other then ANSND_ERROR_INVALID_INPUT
            else if \<not> has_flag (flags (ansnd_voices s (unat other))) VOICE_FLAG_USED
              then ANSND_ERROR_VOICE_ID_NOT_ALLOCATED
            else if has_flag (flags (ansnd_voices s (unat other))) VOICE_FLAG_RUNNING
              then ANSND_ERROR_VOICE_RUNNING
            else if linked_voice (ansnd_voices s (unat other)) \<noteq> None
              then ANSND_ERROR_VOICE_ALREADY_LINKED
            else ANSND_ERROR_INVALID_INPUT, s)"
  using assms by (auto simp add: ansnd_link_voices_def)

lemma link_first_out_of_range:
  assumes "ansnd_library_initialized s" and "ANSND_MAX_VOICES \<le> unat voice_id"
  shows "ansnd_link_voices voice_id other s = (ANSND_ERROR_INVALID_INPUT, s)"
  using assms by (auto simp add: ansnd_link_voices_def)

text \<open>
  Claim C7, as amended. While the library is initialised, a voice id of 48 or more makes
  deallocate, both configure functions, unlink, stop, pause, stop-looping, set-volume
  and set-pitch return \<open>ANSND_ERROR_INVALID_INPUT\<close>, and link too when it is the first
  id; start and unpause return \<open>ANSND_ERROR_DSP_STALLED\<close> instead while the stalled flag
  is set, because they test it before the id. Link with the id in second place tests its
  first voice before: it returns \<open>ANSND_ERROR_INVALID_INPUT\<close> if the first id is 48 or
  more as well, else \<open>ANSND_ERROR_VOICE_ID_NOT_ALLOCATED\<close> if the first voice is not
  allocated, else \<open>ANSND_ERROR_VOICE_RUNNING\<close> if it is running, else
  \<open>ANSND_ERROR_VOICE_ALREADY_LINKED\<close> if it is linked, and
  \<open>ANSND_ERROR_INVALID_INPUT\<close> only when the first voice is allocated, idle and
  unlinked. In every one of these calls the state is left as it was.
\<close>

theorem out_of_range_voice_id:
  assumes "ansnd_library_initialized s" and "ANSND_MAX_VOICES \<le> unat voice_id"
  shows "ansnd_deallocate_voice voice_id s = (ANSND_ERROR_INVALID_INPUT, s)
    \<and> ansnd_configure_pcm_voice hw voice_id pc s = (ANSND_ERROR_INVALID_INPUT, s)
    \<and> ansnd_configure_adpcm_voice hw voice_id ac s = (ANSND_ERROR_INVALID_INPUT, s)
    \<and> ansnd_link_voices voice_id other s = (ANSND_ERROR_INVALID_INPUT, s)
    \<and> ansnd_link_voices other voice_id s
         = (if ANSND_MAX_VOICES \<le> unat other then ANSND_ERROR_INVALID_INPUT
            else if \<not> has_flag (flags (ansnd_voices s (unat other))) VOICE_FLAG_USED
              then ANSND_ERROR_VOICE_ID_NOT_ALLOCATED
            else if has_flag (flags (ansnd_voices s (unat other))) VOICE_FLAG_RUNNING
              then ANSND_ERROR_VOICE_RUNNING
            else if linked_voice (ansnd_voices s (unat other)) \<noteq> None
              then ANSND_ERROR_VOICE_ALREADY_LINKED
            else ANSND_ERROR_INVALID_INPUT, s)
    \<and> ansnd_unlink_voice voice_id s = (ANSND_ERROR_INVALID_INPUT, s)
    \<and> ansnd_start_voice voice_id s
        = (if ansnd_dsp_stalled s then ANSND_ERROR_DSP_STALLED else ANSND_ERROR_INVALID_INPUT, s)
    \<and> ansnd_stop_voice voice_id s = (ANSND_ERROR_INVALID_INPUT, s)
    \<and> ansnd_pause_voice voice_id s = (ANSND_ERROR_INVALID_INPUT, s)
    \<and> ansnd_unpause_voice voice_id s
        = (if ansnd_dsp_stalled s then ANSND_ERROR_DSP_STALLED else ANSND_ERROR_INVALID_INPUT, s)
    \<and> ansnd_stop_looping voice_id s = (ANSND_ERROR_INVALID_INPUT, s)
    \<and> ansnd_set_voice_volume voice_id l r s = (ANSND_ERROR_INVALID_INPUT, s)
    \<and> ansnd_set_voice_pitch hw voice_id p s = (ANSND_ERROR_INVALID_INPUT, s)"
proof -
  have "ansnd_deallocate_voice voice_id s = (ANSND_ERROR_INVALID_INPUT, s)"
    using assms by (simp add: ansnd_deallocate_voice_def)
  moreover have "ansnd_configure_pcm_voice hw voice_id pc s = (ANSND_ERROR_INVALID_INPUT, s)"
    using assms by (simp add: ansnd_configure_pcm_voice_def)
  moreover have "ansnd_configure_adpcm_voice hw voice_id ac s = (ANSND_ERROR_INVALID_INPUT, s)"
    using assms by (simp add: ansnd_configure_adpcm_voice_def)
  moreover have "ansnd_unlink_voice voice_id s = (ANSND_ERROR_INVALID_INPUT, s)"
    using assms by (simp add: ansnd_unlink_voice_def)
  moreover have "ansnd_start_voice voice_id s
        = (if ansnd_dsp_stalled s then ANSND_ERROR_DSP_STALLED else ANSND_ERROR_INVALID_INPUT, s)"
    using assms by (simp add: ansnd_start_voice_def)
  moreover have "ansnd_stop_voice voice_id s = (ANSND_ERROR_INVALID_INPUT, s)"
    using assms by (simp add: ansnd_stop_voice_def)
  moreover have "ansnd_pause_voice voice_id s = (ANSND_ERROR_INVALID_INPUT, s)"
    using assms by (simp add: ansnd_pause_voice_def)
  moreover have "ansnd_unpause_voice voice_id s
        = (if ansnd_dsp_stalled s then ANSND_ERROR_DSP_STALLED else ANSND_ERROR_INVALID_INPUT, s)"
    using assms by (simp add: ansnd_unpause_voice_def)
  moreover have "ansnd_stop_looping voice_id s = (ANSND_ERROR_INVALID_INPUT, s)"
    using assms by (simp add: ansnd_stop_looping_def)
  moreover have "ansnd_set_voice_volume voice_id l r s = (ANSND_ERROR_INVALID_INPUT, s)"
    using assms by (simp add: ansnd_set_voice_volume_def)
  moreover have "ansnd_set_voice_pitch hw voice_id p s = (ANSND_ERROR_INVALID_INPUT, s)"
    using assms by (simp add: ansnd_set_voice_pitch_def)
  ultimately show ?thesis
    using link_first_out_of_range [OF assms] link_second_out_of_range [OF assms]
    by simp
qed

theorem out_of_range_voice_id_witness:
  "ansnd_library_initialized booted_state \<and> ANSND_MAX_VOICES \<le> unat (48 :: u32)
   \<and> ansnd_stop_voice 48 booted_state = (ANSND_ERROR_INVALID_INPUT, booted_state)
   \<and> ansnd_start_voice 48 booted_state = (ANSND_ERROR_INVALID_INPUT, booted_state)
   \<and> ansnd_link_voices 48 0 booted_state = (ANSND_ERROR_INVALID_INPUT, booted_state)
   \<and> ansnd_link_voices 0 48 booted_state
       = (ANSND_ERROR_VOICE_ID_NOT_ALLOCATED, booted_state)"
  using out_of_range_voice_id [of booted_state 48 _ _ _ 0]
  by (simp add: booted_state_def ANSND_MAX_VOICES_def zero_voice_def has_flag_def)

text \<open>
  Claim C7 as stated fails: with the stalled flag set (the state after the first
  interrupt that finds the mixing unfinished), \<open>ansnd_start_voice\<close> on voice id 48
  returns \<open>ANSND_ERROR_DSP_STALLED\<close>, not \<open>ANSND_ERROR_INVALID_INPUT\<close>.
\<close>

theorem out_of_range_voice_id_counterexample:
  "ansnd_library_initialized stalled_state \<and> ANSND_MAX_VOICES \<le> unat (48 :: u32)
   \<and> fst (ansnd_start_voice 48 stalled_state) = ANSND_ERROR_DSP_STALLED
   \<and> fst (ansnd_start_voice 48 stalled_state) \<noteq> ANSND_ERROR_INVALID_INPUT"
  by (simp add: stalled_state_eq booted_state_def ansnd_start_voice_def ANSND_MAX_VOICES_def
      ANSND_ERROR_DSP_STALLED_def ANSND_ERROR_INVALID_INPUT_def)

lemma failed_call_changes_nothing:
  "fst (ansnd_allocate_voice s) < 0 \<longrightarrow> snd (ansnd_allocate_voice s) = s"
  "fst (ansnd_deallocate_voice v s) \<noteq> ANSND_ERROR_OK \<longrightarrow> snd (ansnd_deallocate_voice v s) = s"
  "fst (ansnd_link_voices v w s) \<noteq> ANSND_ERROR_OK \<longrightarrow> snd (ansnd_link_voices v w s) = s"
  "fst (ansnd_unlink_voice v s) \<noteq> ANSND_ERROR_OK \<longrightarrow> snd (ansnd_unlink_voice v s) = s"
  "fst (ansnd_start_voice v s) \<noteq> ANSND_ERROR_OK \<longrightarrow> snd (ansnd_start_voice v s) = s"
  "fst (ansnd_stop_voice v s) \<noteq> ANSND_ERROR_OK \<longrightarrow> snd (ansnd_stop_voice v s) = s"
  "fst (ansnd_pause_voice v s) \<noteq> ANSND_ERROR_OK \<longrightarrow> snd (ansnd_pause_voice v s) = s"
  "fst (ansnd_unpause_voice v s) \<noteq> ANSND_ERROR_OK \<longrightarrow> snd (ansnd_unpause_voice v s) = s"
  "fst (ansnd_stop_looping v s) \<noteq> ANSND_ERROR_OK \<longrightarrow> snd (ansnd_stop_looping v s) = s"
  "fst (ansnd_set_voice_volume v l r s) \<noteq> ANSND_ERROR_OK \<longrightarrow> snd (ansnd_set_voice_volume v l r s) = s"
  "fst (ansnd_set_voice_pitch hw v p s) \<noteq> ANSND_ERROR_OK \<longrightarrow> snd (ansnd_set_voice_pitch hw v p s) = s"
  by (simp_all add: ansnd_allocate_voice_def ansnd_deallocate_voice_def ansnd_link_voices_def
      ansnd_unlink_voice_def ansnd_start_voice_def ansnd_stop_voice_def ansnd_pause_voice_def
      ansnd_unpause_voice_def ansnd_stop_looping_def ansnd_set_voice_volume_def
      ansnd_set_voice_pitch_def Let_def error_defs split: option.splits)

lemma failed_configure_changes_nothing:
  "fst (ansnd_configure_pcm_voice hw v pc s) \<noteq> ANSND_ERROR_OK \<longrightarrow> snd (ansnd_configure_pcm_voice hw v pc s) = s"
  "fst (ansnd_configure_adpcm_voice hw v ac s) \<noteq> ANSND_ERROR_OK \<longrightarrow> snd (ansnd_configure_adpcm_voice hw v ac s) = s"
  by (simp_all add: ansnd_configure_pcm_voice_def ansnd_configure_adpcm_voice_def Let_def error_defs split: option.splits)

text \<open>
  Claim C4, as amended. For a voice that is allocated and a configuration that is not
  \<open>NULL\<close>, both configure functions return \<open>ANSND_ERROR_INVALID_SAMPLERATE\<close> exactly when
  the library is initialised and the single-precision product of sample rate and pitch
  compares below 50 or above the maximum of the output mode. A product equal to the
  maximum is accepted by this test, and so is a product that is not a number (a pitch
  that is not a number), for which both comparisons are false. The same holds for
  \<open>ansnd_set_voice_pitch\<close> on a configured voice that is not running. On this error the
  state is unchanged, and the maximum is four times the processing frequency of the
  active mode.
\<close>

theorem invalid_samplerate_closed_interval:
  assumes "unat v < ANSND_MAX_VOICES"
    and "has_flag (flags (ansnd_voices s (unat v))) VOICE_FLAG_USED"
  shows "(fst (ansnd_configure_pcm_voice hw v (Some pc) s) = ANSND_ERROR_INVALID_SAMPLERATE
           \<longleftrightarrow> ansnd_library_initialized s
               \<and> (f32_less (f32_mul (f32_of_u32 (pcm_samplerate pc)) (pcm_pitch pc)) (Finite 50)
                  \<or> f32_less (max_samplerate hw s)
                       (f32_mul (f32_of_u32 (pcm_samplerate pc)) (pcm_pitch pc))))
    \<and> (fst (ansnd_configure_adpcm_voice hw v (Some ac) s) = ANSND_ERROR_INVALID_SAMPLERATE
           \<longleftrightarrow> ansnd_library_initialized s
               \<and> (f32_less (f32_mul (f32_of_u32 (adpcm_samplerate ac)) (adpcm_pitch ac))
                    (Finite 50)
                  \<or> f32_less (max_samplerate hw s)
                       (f32_mul (f32_of_u32 (adpcm_samplerate ac)) (adpcm_pitch ac))))
    \<and> (has_flag (flags (ansnd_voices s (unat v))) VOICE_FLAG_CONFIGURED
         \<and> \<not> has_flag (flags (ansnd_voices s (unat v))) VOICE_FLAG_RUNNING \<longrightarrow>
        (fst (ansnd_set_voice_pitch hw v p s) = ANSND_ERROR_INVALID_SAMPLERATE
           \<longleftrightarrow> ansnd_library_initialized s
               \<and> (f32_less (f32_mul (f32_of_u32 (samplerate (ansnd_voices s (unat v)))) p)
                    (Finite 50)
                  \<or> f32_less (max_samplerate hw s)
                       (f32_mul (f32_of_u32 (samplerate (ansnd_voices s (unat v)))) p))))
    \<and> (f32_mul (f32_of_u32 (pcm_samplerate pc)) (pcm_pitch pc) = max_samplerate hw s
         \<and> \<not> f32_less (max_samplerate hw s) (Finite 50) \<longrightarrow>
        fst (ansnd_configure_pcm_voice hw v (Some pc) s) \<noteq> ANSND_ERROR_INVALID_SAMPLERATE)
    \<and> (f32_mul (f32_of_u32 (adpcm_samplerate ac)) (adpcm_pitch ac) = max_samplerate hw s
         \<and> \<not> f32_less (max_samplerate hw s) (Finite 50) \<longrightarrow>
        fst (ansnd_configure_adpcm_voice hw v (Some ac) s) \<noteq> ANSND_ERROR_INVALID_SAMPLERATE)
    \<and> (pcm_pitch pc = NaN \<longrightarrow>
        fst (ansnd_configure_pcm_voice hw v (Some pc) s) \<noteq> ANSND_ERROR_INVALID_SAMPLERATE)
    \<and> (adpcm_pitch ac = NaN \<longrightarrow>
        fst (ansnd_configure_adpcm_voice hw v (Some ac) s) \<noteq> ANSND_ERROR_INVALID_SAMPLERATE)
    \<and> (p = NaN \<longrightarrow> fst (ansnd_set_voice_pitch hw v p s) \<noteq> ANSND_ERROR_INVALID_SAMPLERATE)
    \<and> (fst (ansnd_configure_pcm_voice hw v (Some pc) s) = ANSND_ERROR_INVALID_SAMPLERATE
          \<longrightarrow> snd (ansnd_configure_pcm_voice hw v (Some pc) s) = s)
    \<and> (fst (ansnd_configure_adpcm_voice hw v (Some ac) s) = ANSND_ERROR_INVALID_SAMPLERATE
          \<longrightarrow> snd (ansnd_configure_adpcm_voice hw v (Some ac) s) = s)
    \<and> (fst (ansnd_set_voice_pitch hw v p s) = ANSND_ERROR_INVALID_SAMPLERATE
          \<longrightarrow> snd (ansnd_set_voice_pitch hw v p s) = s)
    \<and> (ansnd_output_samplerate s = ANSND_OUTPUT_SAMPLERATE_32KHZ
         \<or> ansnd_output_samplerate s = ANSND_OUTPUT_SAMPLERATE_48KHZ \<longrightarrow>
        max_samplerate hw s = f32_mul (dsp_frequency hw s) (Finite 4))"
proof -
  have "max_samplerate hw s = f32_mul (dsp_frequency hw s) (Finite 4)"
    if "ansnd_output_samplerate s = ANSND_OUTPUT_SAMPLERATE_32KHZ
         \<or> ansnd_output_samplerate s = ANSND_OUTPUT_SAMPLERATE_48KHZ"
    using that
    by (auto simp add: max_samplerate_def dsp_frequency_def ANSND_MAX_SAMPLERATE_32KHZ_def
        ANSND_MAX_SAMPLERATE_48KHZ_def)
  moreover have "snd (ansnd_configure_pcm_voice hw v (Some pc) s) = s"
    if "fst (ansnd_configure_pcm_voice hw v (Some pc) s) = ANSND_ERROR_INVALID_SAMPLERATE"
    using that failed_configure_changes_nothing(1) [of hw v "Some pc" s]
    by (simp add: error_defs)
  moreover have "snd (ansnd_configure_adpcm_voice hw v (Some ac) s) = s"
    if "fst (ansnd_configure_adpcm_voice hw v (Some ac) s) = ANSND_ERROR_INVALID_SAMPLERATE"
    using that failed_configure_changes_nothing(2) [of hw v "Some ac" s]
    by (simp add: error_defs)
  moreover have "snd (ansnd_set_voice_pitch hw v p s) = s"
    if "fst (ansnd_set_voice_pitch hw v p s) = ANSND_ERROR_INVALID_SAMPLERATE"
    using that failed_call_changes_nothing(11) [of hw v p s]
    by (simp add: error_defs)
  moreover have "fst (ansnd_configure_pcm_voice hw v (Some pc) s)
                   \<noteq> ANSND_ERROR_INVALID_SAMPLERATE"
    if "f32_mul (f32_of_u32 (pcm_samplerate pc)) (pcm_pitch pc) = max_samplerate hw s
         \<and> \<not> f32_less (max_samplerate hw s) (Finite 50)"
    using that pcm_code [OF assms, of hw pc] by simp
  moreover have "fst (ansnd_configure_adpcm_voice hw v (Some ac) s)
                   \<noteq> ANSND_ERROR_INVALID_SAMPLERATE"
    if "f32_mul (f32_of_u32 (adpcm_samplerate ac)) (adpcm_pitch ac) = max_samplerate hw s
         \<and> \<not> f32_less (max_samplerate hw s) (Finite 50)"
    using that adpcm_code [OF assms, of hw ac] by simp
  moreover have "fst (ansnd_configure_pcm_voice hw v (Some pc) s)
                   \<noteq> ANSND_ERROR_INVALID_SAMPLERATE"
    if "pcm_pitch pc = NaN"
    using that pcm_code [OF assms, of hw pc] by simp
  moreover have "fst (ansnd_configure_adpcm_voice hw v (Some ac) s)
                   \<noteq> ANSND_ERROR_INVALID_SAMPLERATE"
    if "adpcm_pitch ac = NaN"
    using that adpcm_code [OF assms, of hw ac] by simp
  moreover have "fst (ansnd_set_voice_pitch hw v NaN s) \<noteq> ANSND_ERROR_INVALID_SAMPLERATE"
    by (simp add: ansnd_set_voice_pitch_def Let_def error_defs)
  ultimately show ?thesis
    using pcm_code [OF assms, of hw pc] adpcm_code [OF assms, of hw ac]
      pitch_code [OF assms, of hw p]
    by blast
qed

theorem invalid_samplerate_closed_interval_witness:
  "unat (0 :: u32) < ANSND_MAX_VOICES
   \<and> has_flag (flags (ansnd_voices configured_state (unat (0 :: u32)))) VOICE_FLAG_USED
   \<and> has_flag (flags (ansnd_voices configured_state (unat (0 :: u32)))) VOICE_FLAG_CONFIGURED
   \<and> \<not> has_flag (flags (ansnd_voices configured_state (unat (0 :: u32)))) VOICE_FLAG_RUNNING
   \<and> ansnd_library_initialized configured_state
   \<and> f32_less
        (f32_mul (f32_of_u32 (pcm_samplerate (example_pcm_config\<lparr>pcm_samplerate := 16\<rparr>)))
           (pcm_pitch (example_pcm_config\<lparr>pcm_samplerate := 16\<rparr>)))
        (Finite 50)
   \<and> ansnd_configure_pcm_voice wii 0 (Some (example_pcm_config\<lparr>pcm_samplerate := 16\<rparr>))
        configured_state
       = (ANSND_ERROR_INVALID_SAMPLERATE, configured_state)
   \<and> fst (ansnd_set_voice_pitch wii 0 NaN configured_state) \<noteq> ANSND_ERROR_INVALID_SAMPLERATE
   \<and> max_samplerate wii configured_state
       = f32_mul (dsp_frequency wii configured_state) (Finite 4)"
  using invalid_samplerate_closed_interval
          [of 0 configured_state wii "example_pcm_config\<lparr>pcm_samplerate := 16\<rparr>" _ NaN]
  by (simp add: ANSND_MAX_VOICES_def has_flag_def flag_defs example_pcm_config_def f32_16
      ANSND_OUTPUT_SAMPLERATE_48KHZ_def prod_eq_iff)

text \<open>
  Claim C4 as stated fails at the upper end: at 48 kHz output on \<open>HW_RVL\<close> the maximum
  is 192000, and a configuration with sample rate 192000 and pitch 1, whose product is
  192000 and so not below the maximum, is accepted. A configuration whose pitch is not a
  number is accepted as well, although its product is not a number and lies in no
  interval.
\<close>

theorem invalid_samplerate_half_open_counterexample:
  "ansnd_library_initialized allocated_state \<and> unat (0 :: u32) < ANSND_MAX_VOICES
   \<and> has_flag (flags (ansnd_voices allocated_state (unat (0 :: u32)))) VOICE_FLAG_USED
   \<and> f32_mul (f32_of_u32 192000) (Finite 1) = Finite 192000
   \<and> max_samplerate wii allocated_state = Finite 192000
   \<and> \<not> f32_less (f32_mul (f32_of_u32 192000) (Finite 1)) (max_samplerate wii allocated_state)
   \<and> fst (ansnd_configure_pcm_voice wii 0
            (Some (example_pcm_config\<lparr>pcm_samplerate := 192000\<rparr>)) allocated_state)
       = ANSND_ERROR_OK
   \<and> f32_mul (f32_of_u32 48000) NaN = NaN
   \<and> fst (ansnd_configure_pcm_voice wii 0
            (Some (example_pcm_config\<lparr>pcm_pitch := NaN\<rparr>)) allocated_state)
       = ANSND_ERROR_OK
   \<and> ANSND_ERROR_OK \<noteq> ANSND_ERROR_INVALID_SAMPLERATE"
  by (simp add: ANSND_MAX_VOICES_def f32_192000 configure_boundary configure_nan error_defs)

text \<open>
  Claim C5, as amended. A PCM configuration that is accepted leaves \<open>LOOPED\<close> clear when
  both loop offsets are zero; otherwise it sets \<open>LOOPED\<close>, the loop start is the buffer
  start (the data address in samples) plus the start offset times the channel count,
  and the loop end is the buffer start plus the end offset times the channel count
  minus one.
\<close>

theorem pcm_loop_bounds:
  assumes "ansnd_configure_pcm_voice hw v (Some c) s = (ANSND_ERROR_OK, t)"
  shows "ram_buffer_start (ansnd_voices t (unat v))
           = drop_bit (if pcm_format c = ANSND_VOICE_PCM_FORMAT_SIGNED_16_PCM then 1 else 0)
               (pcm_frame_data_ptr c)
    \<and> (pcm_loop_start_offset c = 0 \<and> pcm_loop_end_offset c = 0 \<longrightarrow>
          \<not> has_flag (flags (ansnd_voices t (unat v))) VOICE_FLAG_LOOPED)
    \<and> (pcm_loop_start_offset c \<noteq> 0 \<or> pcm_loop_end_offset c \<noteq> 0 \<longrightarrow>
          has_flag (flags (ansnd_voices t (unat v))) VOICE_FLAG_LOOPED
          \<and> loop_start (ansnd_voices t (unat v))
              = ram_buffer_start (ansnd_voices t (unat v))
                + pcm_loop_start_offset c * ucast (pcm_channels c)
          \<and> loop_end (ansnd_voices t (unat v))
              = ram_buffer_start (ansnd_voices t (unat v))
                + pcm_loop_end_offset c * ucast (pcm_channels c) - 1)"
  using pcm_ok_fields [OF assms] by blast

lemma configure_loop:
  "ansnd_configure_pcm_voice wii 0 (Some example_loop_config) allocated_state
     = (ANSND_ERROR_OK,
        snd (ansnd_configure_pcm_voice wii 0 (Some example_loop_config) allocated_state))"
  by (simp add: ansnd_configure_pcm_voice_def example_loop_config_def example_pcm_config_def
      ANSND_MAX_VOICES_def f32_48000 wii_memory ANSND_VOICE_PCM_FORMAT_SIGNED_16_PCM_def
      ANSND_VOICE_PCM_FORMAT_UNSET_def Let_def)

theorem pcm_loop_bounds_witness:
  "ansnd_configure_pcm_voice wii 0 (Some example_pcm_config) allocated_state
     = (ANSND_ERROR_OK, configured_state)
   \<and> pcm_loop_start_offset example_pcm_config = 0 \<and> pcm_loop_end_offset example_pcm_config = 0
   \<and> \<not> has_flag (flags (ansnd_voices configured_state (unat (0 :: u32)))) VOICE_FLAG_LOOPED
   \<and> ram_buffer_start (ansnd_voices configured_state (unat (0 :: u32))) = 0x08000000"
proof -
  have "pcm_loop_start_offset example_pcm_config = 0"
    and "pcm_loop_end_offset example_pcm_config = 0"
    and "pcm_format example_pcm_config = ANSND_VOICE_PCM_FORMAT_SIGNED_16_PCM"
    and "pcm_frame_data_ptr example_pcm_config = 0x10000000"
    by (simp_all add: example_pcm_config_def)
  then show ?thesis
    using pcm_loop_bounds [OF configured_state_eq] configured_state_eq
    by simp
qed

text \<open>
  Claim C5 as stated fails for the loop end: with the buffer at sample address
  0x08000000, one channel and a loop end offset of 900, the loop end is one less than
  the start plus offset times channels.
\<close>

theorem pcm_loop_end_counterexample:
  "ansnd_configure_pcm_voice wii 0 (Some example_loop_config) allocated_state
     = (ANSND_ERROR_OK,
        snd (ansnd_configure_pcm_voice wii 0 (Some example_loop_config) allocated_state))
   \<and> pcm_loop_end_offset example_loop_config = 900 \<and> pcm_channels example_loop_config = 1
   \<and> ram_buffer_start
        (ansnd_voices
           (snd (ansnd_configure_pcm_voice wii 0 (Some example_loop_config) allocated_state)) 0)
       = 0x08000000
   \<and> loop_end
        (ansnd_voices
           (snd (ansnd_configure_pcm_voice wii 0 (Some example_loop_config) allocated_state)) 0)
       = 0x08000000 + 900 * 1 - 1
   \<and> loop_end
        (ansnd_voices
           (snd (ansnd_configure_pcm_voice wii 0 (Some example_loop_config) allocated_state)) 0)
       \<noteq> 0x08000000 + 900 * 1"
  using pcm_ok_fields [OF configure_loop] configure_loop
  by (simp add: example_loop_config_def example_pcm_config_def
      ANSND_VOICE_PCM_FORMAT_SIGNED_16_PCM_def)

lemma upd_block_proj [simp]:
  "ansnd_voices (upd_block k g s) = ansnd_voices s"
  "ansnd_dsp_dram_image (upd_block k g s) = (ansnd_dsp_dram_image s)(k := g (ansnd_dsp_dram_image s k))"
  "ansnd_library_initialized (upd_block k g s) = ansnd_library_initialized s"
  "ansnd_dsp_stalled (upd_block k g s) = ansnd_dsp_stalled s"
  "ansnd_dsp_done_mixing (upd_block k g s) = ansnd_dsp_done_mixing s"
  "ansnd_output_samplerate (upd_block k g s) = ansnd_output_samplerate s"
  "ansnd_audio_callback (upd_block k g s) = ansnd_audio_callback s"
  "ansnd_audio_callback_arguments (upd_block k g s) = ansnd_audio_callback_arguments s"
  "ansnd_next_audio_buffer (upd_block k g s) = ansnd_next_audio_buffer s"
  "ansnd_dsp_task_state (upd_block k g s) = ansnd_dsp_task_state s"
  "ansnd_dsp_task_next (upd_block k g s) = ansnd_dsp_task_next s"
  "ansnd_active_voices (upd_block k g s) = ansnd_active_voices s"
  "hw_events (upd_block k g s) = hw_events s"
  by (simp_all add: upd_block_def)

lemma emit_proj [simp]:
  "ansnd_voices (emit e s) = ansnd_voices s"
  "ansnd_dsp_dram_image (emit e s) = ansnd_dsp_dram_image s"
  "ansnd_library_initialized (emit e s) = ansnd_library_initialized s"
  "ansnd_dsp_stalled (emit e s) = ansnd_dsp_stalled s"
  "ansnd_dsp_done_mixing (emit e s) = ansnd_dsp_done_mixing s"
  "ansnd_output_samplerate (emit e s) = ansnd_output_samplerate s"
  "ansnd_audio_callback (emit e s) = ansnd_audio_callback s"
  "ansnd_audio_callback_arguments (emit e s) = ansnd_audio_callback_arguments s"
  "ansnd_next_audio_buffer (emit e s) = ansnd_next_audio_buffer s"
  "ansnd_dsp_task_state (emit e s) = ansnd_dsp_task_state s"
  "ansnd_dsp_task_next (emit e s) = ansnd_dsp_task_next s"
  "ansnd_active_voices (emit e s) = ansnd_active_voices s"
  "hw_events (emit e s) = hw_events s @ [e]"
  by (simp_all add: emit_def)

lemma stalled_proj [simp]:
  "ansnd_library_initialized stalled_state" "ansnd_dsp_stalled stalled_state"
  "\<not> ansnd_dsp_done_mixing stalled_state" "ansnd_dsp_task_state stalled_state = DSPTASK_RUN"
  "\<not> ansnd_dsp_task_next stalled_state"
  by (simp_all add: stalled_state_eq)

lemma uninitialize_stalled:
  "ansnd_uninitialize task_done stalled_state = Some ended_stalled_state"
  by (simp add: ansnd_uninitialize_def ended_stalled_state_def wait_for_task_now task_done_def)

lemma mirror_proj [simp]:
  "ansnd_dsp_stalled (mirror_to_linked i f s) = ansnd_dsp_stalled s"
  "ansnd_library_initialized (mirror_to_linked i f s) = ansnd_library_initialized s"
  "ansnd_dsp_done_mixing (mirror_to_linked i f s) = ansnd_dsp_done_mixing s"
  "ansnd_dsp_dram_image (mirror_to_linked i f s) = ansnd_dsp_dram_image s"
  "ansnd_output_samplerate (mirror_to_linked i f s) = ansnd_output_samplerate s"
  by (simp_all add: mirror_to_linked_def Let_def split: option.splits)

text \<open>
  Claim C8, as amended. While the library is initialised and the stalled flag is set,
  \<open>ansnd_start_voice\<close> and \<open>ansnd_unpause_voice\<close> return \<open>ANSND_ERROR_DSP_STALLED\<close> and
  change nothing. The next interrupt that still finds the mixing unfinished hands the
  silent buffer to the audio DMA, sends the restart command if the coprocessor task is
  in the state \<open>DSPTASK_RUN\<close> (and no command otherwise), keeps the flag set and
  touches neither the voices nor the parameter blocks.
\<close>

theorem stalled_refuses_start:
  assumes "ansnd_library_initialized s" and "ansnd_dsp_stalled s"
    and "\<not> ansnd_dsp_done_mixing s"
  shows "ansnd_start_voice v s = (ANSND_ERROR_DSP_STALLED, s)
    \<and> ansnd_unpause_voice v s = (ANSND_ERROR_DSP_STALLED, s)
    \<and> hw_events (ansnd_audio_dma_callback s)
        = hw_events s
          @ (if ansnd_dsp_task_next s then [DSP_AssertTask] else [])
          @ [AUDIO_InitDMA ansnd_mute_buffer_out ANSND_SOUND_BUFFER_SIZE]
          @ (if ansnd_dsp_task_state s = DSPTASK_RUN
             then [DSP_SendMailTo (DSP_MAIL_COMMAND OR DSP_MAIL_RESTART)] else [])
    \<and> ansnd_dsp_stalled (ansnd_audio_dma_callback s)
    \<and> \<not> ansnd_dsp_done_mixing (ansnd_audio_dma_callback s)
    \<and> ansnd_voices (ansnd_audio_dma_callback s) = ansnd_voices s
    \<and> ansnd_dsp_dram_image (ansnd_audio_dma_callback s) = ansnd_dsp_dram_image s"
  using assms
  by (simp add: ansnd_start_voice_def ansnd_unpause_voice_def ansnd_audio_dma_callback_def
      Let_def emit_def)

theorem stalled_refuses_start_witness:
  "ansnd_library_initialized stalled_state \<and> ansnd_dsp_stalled stalled_state
   \<and> \<not> ansnd_dsp_done_mixing stalled_state
   \<and> ansnd_start_voice 0 stalled_state = (ANSND_ERROR_DSP_STALLED, stalled_state)
   \<and> hw_events (ansnd_audio_dma_callback stalled_state)
       = hw_events stalled_state
         @ [AUDIO_InitDMA ansnd_mute_buffer_out ANSND_SOUND_BUFFER_SIZE,
            DSP_SendMailTo (DSP_MAIL_COMMAND OR DSP_MAIL_RESTART)]"
  using stalled_refuses_start [of stalled_state 0]
  by simp

text \<open>
  Claim C8 as stated fails in two places. With the stalled flag set and the coprocessor
  task not in the state \<open>DSPTASK_RUN\<close>, the next interrupt sends no restart command.
  And after \<open>ansnd_uninitialize\<close> the flag is still set, while \<open>ansnd_start_voice\<close>
  returns \<open>ANSND_ERROR_NOT_INITIALIZED\<close>.
\<close>

theorem stalled_refuses_start_counterexample:
  "ansnd_dsp_stalled yielded_stalled_state \<and> \<not> ansnd_dsp_done_mixing yielded_stalled_state
   \<and> DSP_SendMailTo (DSP_MAIL_COMMAND OR DSP_MAIL_RESTART)
       \<notin> set (hw_events (ansnd_audio_dma_callback yielded_stalled_state))
   \<and> ansnd_uninitialize task_done stalled_state = Some ended_stalled_state
   \<and> ansnd_dsp_stalled ended_stalled_state
   \<and> fst (ansnd_start_voice 0 ended_stalled_state) = ANSND_ERROR_NOT_INITIALIZED
   \<and> ANSND_ERROR_NOT_INITIALIZED \<noteq> ANSND_ERROR_DSP_STALLED"
proof -
  have "ansnd_dsp_stalled yielded_stalled_state \<and> \<not> ansnd_dsp_done_mixing yielded_stalled_state
    \<and> DSP_SendMailTo (DSP_MAIL_COMMAND OR DSP_MAIL_RESTART)
       \<notin> set (hw_events (ansnd_audio_dma_callback yielded_stalled_state))"
    by (simp add: yielded_stalled_state_def ansnd_audio_dma_callback_def Let_def emit_def
        stalled_state_eq booted_state_def)
  moreover have "ansnd_dsp_stalled ended_stalled_state
    \<and> fst (ansnd_start_voice 0 ended_stalled_state) = ANSND_ERROR_NOT_INITIALIZED"
    by (simp add: ended_stalled_state_def task_done_def ansnd_start_voice_def)
  ultimately show ?thesis
    using uninitialize_stalled by (simp add: error_defs)
qed

section \<open>Starting a streaming voice\<close>







lemma streaming_proj [simp]:
  "ansnd_library_initialized streaming_state" "\<not> ansnd_dsp_stalled streaming_state"
  "flags (ansnd_voices streaming_state 0) = 0x1C08"
  by (simp_all add: streaming_state_def ansnd_configure_pcm_voice_def
      example_stream_config_def example_pcm_config_def ANSND_MAX_VOICES_def
      f32_48000 wii_memory set_flags_def ANSND_VOICE_PCM_FORMAT_SIGNED_16_PCM_def
      ANSND_VOICE_PCM_FORMAT_UNSET_def Let_def ANSND_VOICE_PCM_FORMAT_SIGNED_8_PCM_def
      flag_defs has_flag_def)



section \<open>The exchange of stream buffers\<close>

lemma low_mask: "(0x0000FFFF :: u32) = mask 16"
  by (simp add: mask_eq_exp_minus_1)

lemma high_mask: "(0xFFFF0000 :: u32) = push_bit 16 (mask 16)"
  by (simp add: mask_eq_exp_minus_1 push_bit_eq_mult)

lemma HIGH_bit: "bit (HIGH x) n \<longleftrightarrow> n < 16 \<and> bit x (n + 16)"
  unfolding HIGH_def high_mask
  by (auto simp add: bit_ucast_iff bit_drop_bit_eq bit_and_iff bit_push_bit_iff bit_mask_iff
      ac_simps dest: bit_imp_le_length)

lemma LOW_bit: "bit (LOW x) n \<longleftrightarrow> n < 16 \<and> bit x n"
  unfolding LOW_def low_mask
  by (auto simp add: bit_ucast_iff bit_and_iff bit_mask_iff)







lemma streaming_fields [simp]:
  "parameter_block (ansnd_voices streaming_state 0) = Some 0"
  "next_buffer_start (ansnd_voices streaming_state 0) = 0"
  "stream_callback (ansnd_voices streaming_state 0) = 0x80003000"
  "user_pointer (ansnd_voices streaming_state 0) = 0"
  "accelerator_gain (ansnd_voices streaming_state 0) = DSP_ACCL_GAIN_16BIT"
  "ansnd_dsp_dram_image streaming_state = (\<lambda>_. zero_parameter_block)"
  by (simp_all add: streaming_state_def ansnd_configure_pcm_voice_def
      example_stream_config_def example_pcm_config_def ANSND_MAX_VOICES_def
      f32_48000 wii_memory set_flags_def ANSND_VOICE_PCM_FORMAT_SIGNED_16_PCM_def
      ANSND_VOICE_PCM_FORMAT_UNSET_def Let_def ANSND_VOICE_PCM_FORMAT_SIGNED_8_PCM_def
      flag_defs has_flag_def allocated_state_eq booted_state_def zero_voice_def)





lemma pending_fields [simp]:
  "parameter_block (ansnd_voices pending_state 0) = Some 0"
  "next_buffer_start (ansnd_voices pending_state 0) = 0"
  "stream_callback (ansnd_voices pending_state 0) = 0x80003000"
  "user_pointer (ansnd_voices pending_state 0) = 0"
  "accelerator_gain (ansnd_voices pending_state 0) = DSP_ACCL_GAIN_16BIT"
  "flags (ansnd_voices pending_state 0) = 0x1888"
  "pb_next_buffer_start_high (ansnd_dsp_dram_image pending_state 0) = 0x0800"
  "pb_next_buffer_start_low (ansnd_dsp_dram_image pending_state 0) = 0x1000"
  "pb_flags (ansnd_dsp_dram_image pending_state 0) = 0"
  by (simp_all add: pending_state_def streamed_state_def flag_defs
      zero_parameter_block_def set_flags_def clear_flags_def)



section \<open>The capacity of the voice registry\<close>

lemma allocate_many_fresh:
  assumes "ansnd_library_initialized s"
    and "\<forall>i<ANSND_MAX_VOICES. \<not> has_flag (flags (ansnd_voices s i)) VOICE_FLAG_USED"
    and "n \<le> ANSND_MAX_VOICES"
  shows "allocate_many n s
           = (map int [0..<n],
              s\<lparr>ansnd_voices :=
                   (\<lambda>i. if i < n then zero_voice\<lparr>flags := VOICE_FLAG_USED\<rparr>
                        else ansnd_voices s i)\<rparr>)"
  using assms(3)
proof (induction n)
  case 0
  then show ?case
    by simp
next
  case (Suc n)
  define t where "t = s\<lparr>ansnd_voices :=
                   (\<lambda>i. if i < n then zero_voice\<lparr>flags := VOICE_FLAG_USED\<rparr>
                        else ansnd_voices s i)\<rparr>"
  have ih: "allocate_many n s = (map int [0..<n], t)"
    using Suc by (simp add: t_def)
  have n: "n < ANSND_MAX_VOICES"
    using Suc.prems by simp
  have f: "find (\<lambda>i. \<not> has_flag (flags (ansnd_voices t i)) VOICE_FLAG_USED)
             [0..<ANSND_MAX_VOICES] = Some n"
    using n assms(2) by (intro find_first) (simp_all add: t_def)
  have a: "ansnd_allocate_voice t
             = (int n, upd_voice n (\<lambda>_. zero_voice\<lparr>flags := VOICE_FLAG_USED\<rparr>) t)"
    using assms(1) f by (simp add: ansnd_allocate_voice_def t_def)
  have u: "upd_voice n (\<lambda>_. zero_voice\<lparr>flags := VOICE_FLAG_USED\<rparr>) t
             = s\<lparr>ansnd_voices :=
                   (\<lambda>i. if i < Suc n then zero_voice\<lparr>flags := VOICE_FLAG_USED\<rparr>
                        else ansnd_voices s i)\<rparr>"
    by (auto simp add: upd_voice_def t_def fun_eq_iff less_Suc_eq)
  show ?case
    by (simp add: ih a u)
qed






lemma full_state_eq:
  "allocate_many ANSND_MAX_VOICES booted_state = (map int [0..<ANSND_MAX_VOICES], full_state)"
  "full_state
     = booted_state\<lparr>ansnd_voices :=
         (\<lambda>i. if i < ANSND_MAX_VOICES then zero_voice\<lparr>flags := VOICE_FLAG_USED\<rparr>
              else zero_voice)\<rparr>"
proof -
  have a: "allocate_many ANSND_MAX_VOICES booted_state
           = (map int [0..<ANSND_MAX_VOICES],
              booted_state\<lparr>ansnd_voices :=
                   (\<lambda>i. if i < ANSND_MAX_VOICES then zero_voice\<lparr>flags := VOICE_FLAG_USED\<rparr>
                        else ansnd_voices booted_state i)\<rparr>)"
    by (intro allocate_many_fresh) (simp_all add: has_flag_zero)
  have b: "(\<lambda>i. if i < ANSND_MAX_VOICES then zero_voice\<lparr>flags := VOICE_FLAG_USED\<rparr>
                else ansnd_voices booted_state i)
           = (\<lambda>i. if i < ANSND_MAX_VOICES then zero_voice\<lparr>flags := VOICE_FLAG_USED\<rparr>
                else zero_voice)"
    by (simp add: fun_eq_iff)
  show "allocate_many ANSND_MAX_VOICES booted_state
               = (map int [0..<ANSND_MAX_VOICES], full_state)"
    unfolding full_state_def a by simp
  show "full_state
     = booted_state\<lparr>ansnd_voices :=
         (\<lambda>i. if i < ANSND_MAX_VOICES then zero_voice\<lparr>flags := VOICE_FLAG_USED\<rparr>
              else zero_voice)\<rparr>"
    unfolding full_state_def a snd_conv b ..
qed

lemma full_proj [simp]:
  "ansnd_library_initialized full_state"
  "ansnd_output_samplerate full_state = ANSND_OUTPUT_SAMPLERATE_48KHZ"
  "i < ANSND_MAX_VOICES \<Longrightarrow> flags (ansnd_voices full_state i) = VOICE_FLAG_USED"
  "parameter_block (ansnd_voices full_state i) = None"
  "linked_voice (ansnd_voices full_state i) = None"
  by (simp_all add: full_state_eq(2))

lemma configured_full_proj [simp]:
  "ansnd_library_initialized configured_full_state"
  "i < ANSND_MAX_VOICES \<Longrightarrow>
     has_flag (flags (ansnd_voices configured_full_state i)) VOICE_FLAG_USED"
  "parameter_block (ansnd_voices configured_full_state 0) = Some 0"
  by (simp_all add: configured_full_state_def ansnd_configure_pcm_voice_def
      example_pcm_config_def f32_48000 wii_memory ANSND_VOICE_PCM_FORMAT_SIGNED_16_PCM_def
      ANSND_VOICE_PCM_FORMAT_UNSET_def ANSND_VOICE_PCM_FORMAT_SIGNED_8_PCM_def Let_def
      has_flag_or)
     (simp_all add: ANSND_MAX_VOICES_def)



section \<open>The relative frequency of a voice\<close>

lemma HIGH_LOW_join: "push_bit 16 (ucast (HIGH r)) OR ucast (LOW r) = r"
proof (rule bit_word_eqI)
  fix n assume n: "n < LENGTH(32)"
  show "bit (push_bit 16 (ucast (HIGH r)) OR ucast (LOW r) :: u32) n = bit r n"
    using n
    by (auto simp add: bit_or_iff bit_push_bit_iff bit_ucast_iff HIGH_bit LOW_bit)
qed

lemma update_pitch_result:
  assumes "parameter_block (ansnd_voices s i) = Some k"
    and "raw = (word_of_int
                 (lrintf (f32_mul (f32_of_u32 0x00010000)
                            (f32_div
                               (f32_mul (f32_of_u32 (samplerate (ansnd_voices s i)))
                                  (pitch (ansnd_voices s i)))
                               (dsp_frequency hw s)))) :: u32)"
    and "rf = (if 0x00010000 - 0x100 < raw \<and> raw < 0x00010000 + 0x100 then 0x00010000 else raw)"
    and "fs = (if (0x00010000 :: u32) + 0x0205 < rf
               then word_of_int
                      (lrintf (f32_mul (f32_of_u32 (drop_bit 1 0x00010000))
                                 (f32_div (dsp_frequency hw s)
                                    (f32_mul (f32_of_u32 (samplerate (ansnd_voices s i)))
                                       (pitch (ansnd_voices s i))))))
               else push_bit 6 504 :: u16)"
  shows "\<exists>t. ansnd_update_voice_pitch hw i s = Some t
           \<and> pb_relative_frequency_high (ansnd_dsp_dram_image t k) = HIGH rf
           \<and> pb_relative_frequency_low (ansnd_dsp_dram_image t k) = LOW rf
           \<and> pb_filter_step (ansnd_dsp_dram_image t k) = fs
           \<and> pb_correction_factor (ansnd_dsp_dram_image t k)
               = (if (0x00010000 :: u32) + 0x0205 < rf
                  then word_of_int (- 256 * (128 - uint (drop_bit 8 fs)) + 32767)
                  else 32767)
           \<and> ansnd_voices t = ansnd_voices s"
  using assms(1)
  unfolding assms(2,3,4)
  by (simp add: ansnd_update_voice_pitch_def Let_def del: f32_mul.simps f32_div.simps)

lemma f32_base: "f32_of_u32 0x00010000 = Finite 65536"
  by code_simp

lemma f32_half_base:
  "f32_of_u32 (drop_bit 1 0x00010000) = Finite 32768" "f32_of_u32 32768 = Finite 32768"
  by code_simp+

lemma f32_half_step: "f32_mul (Finite 32768) (Finite (1 / 2)) = Finite 16384"
  by code_simp

lemma relative_frequency_fields:
  assumes "parameter_block (ansnd_voices s i) = Some k"
    and "raw = (word_of_int
                 (lrintf (f32_mul (f32_of_u32 0x00010000)
                            (f32_div
                               (f32_mul (f32_of_u32 (samplerate (ansnd_voices s i)))
                                  (pitch (ansnd_voices s i)))
                               (dsp_frequency hw s)))) :: u32)"
  shows "\<exists>t. ansnd_update_voice_pitch hw i s = Some t
      \<and> relative_frequency_of (ansnd_dsp_dram_image t k)
          = (if 0xFF00 < raw \<and> raw < 0x10100 then 0x10000 else raw)
      \<and> (0xFF00 < raw \<and> raw < 0x10100 \<longrightarrow>
            dsp_no_resample (ansnd_dsp_dram_image t k)
          \<and> pb_filter_step (ansnd_dsp_dram_image t k) = 32256
          \<and> pb_correction_factor (ansnd_dsp_dram_image t k) = 32767)
      \<and> (raw = 0xFF00 \<or> raw = 0x10100 \<longrightarrow>
            relative_frequency_of (ansnd_dsp_dram_image t k) = raw
          \<and> \<not> dsp_no_resample (ansnd_dsp_dram_image t k)
          \<and> pb_filter_step (ansnd_dsp_dram_image t k) = 32256)
      \<and> (raw = 0x20000 \<longrightarrow>
            relative_frequency_of (ansnd_dsp_dram_image t k) = 0x20000
          \<and> \<not> dsp_no_resample (ansnd_dsp_dram_image t k)
          \<and> pb_filter_step (ansnd_dsp_dram_image t k)
              = word_of_int
                  (lrintf (f32_mul (Finite 32768)
                             (f32_div (dsp_frequency hw s)
                                (f32_mul (f32_of_u32 (samplerate (ansnd_voices s i)))
                                   (pitch (ansnd_voices s i)))))))
      \<and> (raw = 0x20000
          \<and> f32_div (dsp_frequency hw s)
                (f32_mul (f32_of_u32 (samplerate (ansnd_voices s i))) (pitch (ansnd_voices s i)))
              = Finite (1 / 2) \<longrightarrow>
            pb_filter_step (ansnd_dsp_dram_image t k) = 16384
          \<and> pb_correction_factor (ansnd_dsp_dram_image t k) = 16383)"
proof -
  define rf where
    "rf = (if 0x00010000 - 0x100 < raw \<and> raw < 0x00010000 + 0x100 then 0x00010000 else raw)"
  define fs where
    "fs = (if (0x00010000 :: u32) + 0x0205 < rf
               then word_of_int
                      (lrintf (f32_mul (f32_of_u32 (drop_bit 1 0x00010000))
                                 (f32_div (dsp_frequency hw s)
                                    (f32_mul (f32_of_u32 (samplerate (ansnd_voices s i)))
                                       (pitch (ansnd_voices s i))))))
               else push_bit 6 504 :: u16)"
  from update_pitch_result [OF assms(1) assms(2) rf_def fs_def]
  obtain t where t: "ansnd_update_voice_pitch hw i s = Some t"
    and h: "pb_relative_frequency_high (ansnd_dsp_dram_image t k) = HIGH rf"
    and l: "pb_relative_frequency_low (ansnd_dsp_dram_image t k) = LOW rf"
    and f: "pb_filter_step (ansnd_dsp_dram_image t k) = fs"
    and c: "pb_correction_factor (ansnd_dsp_dram_image t k)
               = (if (0x00010000 :: u32) + 0x0205 < rf
                  then word_of_int (- 256 * (128 - uint (drop_bit 8 fs)) + 32767)
                  else 32767)"
    by blast
  have r: "relative_frequency_of (ansnd_dsp_dram_image t k) = rf"
    by (simp add: relative_frequency_of_def h l HIGH_LOW_join)
  have n: "dsp_no_resample (ansnd_dsp_dram_image t k) \<longleftrightarrow> LOW rf = 0 \<and> HIGH rf AND 1 = 1"
    by (simp add: dsp_no_resample_def h l)
  have 1: "relative_frequency_of (ansnd_dsp_dram_image t k)
          = (if 0xFF00 < raw \<and> raw < 0x10100 then 0x10000 else raw)"
    by (simp add: r rf_def)
  have 2: "dsp_no_resample (ansnd_dsp_dram_image t k)
          \<and> pb_filter_step (ansnd_dsp_dram_image t k) = 32256
          \<and> pb_correction_factor (ansnd_dsp_dram_image t k) = 32767"
    if "0xFF00 < raw \<and> raw < 0x10100"
  proof -
    have "rf = 0x10000"
      using that by (simp add: rf_def)
    then show ?thesis
      by (simp add: n f c fs_def HIGH_def LOW_def)
  qed
  have 3: "relative_frequency_of (ansnd_dsp_dram_image t k) = raw
          \<and> \<not> dsp_no_resample (ansnd_dsp_dram_image t k)
          \<and> pb_filter_step (ansnd_dsp_dram_image t k) = 32256"
    if "raw = 0xFF00 \<or> raw = 0x10100"
  proof -
    have "rf = raw"
      using that by (auto simp add: rf_def)
    then show ?thesis
      using that by (auto simp add: r n f fs_def HIGH_def LOW_def)
  qed
  have 4: "relative_frequency_of (ansnd_dsp_dram_image t k) = 0x20000
          \<and> \<not> dsp_no_resample (ansnd_dsp_dram_image t k)
          \<and> pb_filter_step (ansnd_dsp_dram_image t k)
              = word_of_int
                  (lrintf (f32_mul (Finite 32768)
                             (f32_div (dsp_frequency hw s)
                                (f32_mul (f32_of_u32 (samplerate (ansnd_voices s i)))
                                   (pitch (ansnd_voices s i))))))"
    if "raw = 0x20000"
  proof -
    have "rf = 0x20000"
      using that by (simp add: rf_def)
    then show ?thesis
      by (simp add: r n f fs_def HIGH_def LOW_def f32_half_base
          del: f32_mul.simps f32_div.simps)
  qed
  have 5: "pb_filter_step (ansnd_dsp_dram_image t k) = 16384
          \<and> pb_correction_factor (ansnd_dsp_dram_image t k) = 16383"
    if "raw = 0x20000
          \<and> f32_div (dsp_frequency hw s)
                (f32_mul (f32_of_u32 (samplerate (ansnd_voices s i))) (pitch (ansnd_voices s i)))
              = Finite (1 / 2)"
  proof -
    have rf: "rf = 0x20000"
      using that by (simp add: rf_def)
    have "fs = word_of_int (lrintf (f32_mul (Finite 32768) (Finite (1 / 2))))"
      using that by (simp add: fs_def rf f32_half_base del: f32_mul.simps f32_div.simps)
    then have "fs = 16384"
      by (simp add: f32_half_step saturate_long_def round_half_even_def
          del: f32_mul.simps)
    then show ?thesis
      by (simp add: f c rf)
  qed
  show ?thesis
    using t 1 2 3 4 5 by blast
qed

text \<open>
  Claim C6, as amended. For a voice that has a parameter block, \<open>ansnd_update_voice_pitch\<close>
  computes, in single precision, the product of sample rate and pitch, its quotient by
  the processing frequency of the output mode and the product of that by 65536, and
  converts the result to an integer with \<open>lrintf\<close>. If this number is strictly between
  65280 and 65792, the relative frequency stored is 65536, the microcode takes the path
  without resampling, and the filter step and the correction factor are the defaults
  32256 and 32767. At 65280 or 65792 the number is stored as it is and the microcode
  resamples. At 131072 the number is stored as it is, the microcode resamples, and the
  filter step is \<open>lrintf\<close> of 32768 times the quotient of the processing frequency by
  the product; it is 16384, with the correction factor 16383, when that quotient is one
  half.
\<close>

theorem relative_frequency_snap:
  assumes "parameter_block (ansnd_voices s i) = Some k"
    and "raw = (word_of_int
                 (lrintf (f32_mul (f32_of_u32 0x00010000)
                            (f32_div
                               (f32_mul (f32_of_u32 (samplerate (ansnd_voices s i)))
                                  (pitch (ansnd_voices s i)))
                               (dsp_frequency hw s)))) :: u32)"
  shows "\<exists>t. ansnd_update_voice_pitch hw i s = Some t
      \<and> relative_frequency_of (ansnd_dsp_dram_image t k)
          = (if 0xFF00 < raw \<and> raw < 0x10100 then 0x10000 else raw)
      \<and> (0xFF00 < raw \<and> raw < 0x10100 \<longrightarrow>
            dsp_no_resample (ansnd_dsp_dram_image t k)
          \<and> pb_filter_step (ansnd_dsp_dram_image t k) = 32256
          \<and> pb_correction_factor (ansnd_dsp_dram_image t k) = 32767)
      \<and> (raw = 0xFF00 \<or> raw = 0x10100 \<longrightarrow>
            relative_frequency_of (ansnd_dsp_dram_image t k) = raw
          \<and> \<not> dsp_no_resample (ansnd_dsp_dram_image t k)
          \<and> pb_filter_step (ansnd_dsp_dram_image t k) = 32256)
      \<and> (raw = 0x20000 \<longrightarrow>
            relative_frequency_of (ansnd_dsp_dram_image t k) = 0x20000
          \<and> \<not> dsp_no_resample (ansnd_dsp_dram_image t k)
          \<and> pb_filter_step (ansnd_dsp_dram_image t k)
              = word_of_int
                  (lrintf (f32_mul (Finite 32768)
                             (f32_div (dsp_frequency hw s)
                                (f32_mul (f32_of_u32 (samplerate (ansnd_voices s i)))
                                   (pitch (ansnd_voices s i)))))))
      \<and> (raw = 0x20000
          \<and> f32_div (dsp_frequency hw s)
                (f32_mul (f32_of_u32 (samplerate (ansnd_voices s i))) (pitch (ansnd_voices s i)))
              = Finite (1 / 2) \<longrightarrow>
            pb_filter_step (ansnd_dsp_dram_image t k) = 16384
          \<and> pb_correction_factor (ansnd_dsp_dram_image t k) = 16383)"
  using assms by (rule relative_frequency_fields)

lemma raw_48000:
  "word_of_int
     (lrintf (f32_mul (f32_of_u32 0x00010000)
                (f32_div (f32_mul (f32_of_u32 48000) (Finite 1))
                   (f32_div (Finite 54000000) (Finite 1125)))))
     = (0x10000 :: u32)"
  by code_simp

lemma raw_24026:
  "word_of_int
     (lrintf (f32_mul (f32_of_u32 0x00010000)
                (f32_div (f32_mul (f32_of_u32 24026) (Finite 1))
                   (f32_div (Finite 54000000) (Finite 1125)))))
     = (32804 :: u32)"
  by code_simp

lemma raw_95625:
  "word_of_int
     (lrintf (f32_mul (f32_of_u32 0x00010000)
                (f32_div (f32_mul (f32_of_u32 95625) (Finite (1 / 2)))
                   (f32_div (Finite 54000000) (Finite 1125)))))
     = (0xFF00 :: u32)"
  by code_simp

lemma f32_24026: "f32_mul (f32_of_u32 24026) (Finite 1) = Finite 24026"
  by code_simp

lemma f32_95625: "f32_mul (f32_of_u32 95625) (Finite (1 / 2)) = Finite (95625 / 2)"
  by code_simp

lemma wii_frequency:
  "ansnd_output_samplerate s = ANSND_OUTPUT_SAMPLERATE_48KHZ \<Longrightarrow>
     dsp_frequency wii s = f32_div (Finite 54000000) (Finite 1125)"
  by (simp add: dsp_frequency_def ANSND_DSP_FREQ_48KHZ_def wii_def
      ANSND_OUTPUT_SAMPLERATE_48KHZ_def ANSND_OUTPUT_SAMPLERATE_32KHZ_def
      del: f32_div.simps)

lemma configured_pitch [simp]:
  "pitch (ansnd_voices configured_state 0) = Finite 1"
  by (simp add: configured_state_def ansnd_configure_pcm_voice_def example_pcm_config_def
      ANSND_MAX_VOICES_def f32_48000 wii_memory set_flags_def
      ANSND_VOICE_PCM_FORMAT_SIGNED_16_PCM_def ANSND_VOICE_PCM_FORMAT_UNSET_def Let_def
      ANSND_VOICE_PCM_FORMAT_SIGNED_8_PCM_def)

lemma detuned_proj [simp]:
  "ansnd_output_samplerate detuned_state = ANSND_OUTPUT_SAMPLERATE_48KHZ"
  "samplerate (ansnd_voices detuned_state 0) = 24026"
  "pitch (ansnd_voices detuned_state 0) = Finite 1"
  "parameter_block (ansnd_voices detuned_state 0) = Some 0"
  by (simp_all add: detuned_state_def ansnd_configure_pcm_voice_def example_pcm_config_def
      ANSND_MAX_VOICES_def f32_24026 wii_memory set_flags_def
      ANSND_VOICE_PCM_FORMAT_SIGNED_16_PCM_def ANSND_VOICE_PCM_FORMAT_UNSET_def Let_def
      ANSND_VOICE_PCM_FORMAT_SIGNED_8_PCM_def)

lemma edge_proj [simp]:
  "ansnd_output_samplerate edge_state = ANSND_OUTPUT_SAMPLERATE_48KHZ"
  "samplerate (ansnd_voices edge_state 0) = 95625"
  "pitch (ansnd_voices edge_state 0) = Finite (1 / 2)"
  "parameter_block (ansnd_voices edge_state 0) = Some 0"
  by (simp_all add: edge_state_def ansnd_configure_pcm_voice_def example_pcm_config_def
      ANSND_MAX_VOICES_def f32_95625 wii_memory set_flags_def
      ANSND_VOICE_PCM_FORMAT_SIGNED_16_PCM_def ANSND_VOICE_PCM_FORMAT_UNSET_def Let_def
      ANSND_VOICE_PCM_FORMAT_SIGNED_8_PCM_def)

theorem relative_frequency_snap_witness:
  "parameter_block (ansnd_voices configured_state 0) = Some 0
   \<and> (0x10000 :: u32)
       = word_of_int
           (lrintf (f32_mul (f32_of_u32 0x00010000)
                      (f32_div
                         (f32_mul (f32_of_u32 (samplerate (ansnd_voices configured_state 0)))
                            (pitch (ansnd_voices configured_state 0)))
                         (dsp_frequency wii configured_state))))
   \<and> (\<exists>t. ansnd_update_voice_pitch wii 0 configured_state = Some t
          \<and> relative_frequency_of (ansnd_dsp_dram_image t 0) = 0x10000
          \<and> dsp_no_resample (ansnd_dsp_dram_image t 0)
          \<and> pb_filter_step (ansnd_dsp_dram_image t 0) = 32256)"
proof -
  have p: "parameter_block (ansnd_voices configured_state 0) = Some 0"
    by simp
  have r: "(0x10000 :: u32)
       = word_of_int
           (lrintf (f32_mul (f32_of_u32 0x00010000)
                      (f32_div
                         (f32_mul (f32_of_u32 (samplerate (ansnd_voices configured_state 0)))
                            (pitch (ansnd_voices configured_state 0)))
                         (dsp_frequency wii configured_state))))"
    by (simp add: wii_frequency raw_48000 del: f32_mul.simps f32_div.simps)
  show ?thesis
    using relative_frequency_snap [OF p r, of] p r by auto
qed

text \<open>
  Claim C6 as stated fails twice. At 48 kHz output on \<open>HW_RVL\<close>, a voice of sample rate
  24026 and pitch 1 gets the relative frequency 32804, although 65536 times 24026 over
  48000 is 32803.4987 and rounds to 32803: the quotient is rounded to single precision
  before it is scaled. And a voice of sample rate 95625 and pitch one half gets the
  relative frequency 65280, which is 256 below 65536 and is not replaced: the microcode
  resamples.
\<close>

theorem relative_frequency_counterexample:
  "samplerate (ansnd_voices detuned_state 0) = 24026
   \<and> pitch (ansnd_voices detuned_state 0) = Finite 1
   \<and> map_option (\<lambda>t. relative_frequency_of (ansnd_dsp_dram_image t 0))
        (ansnd_update_voice_pitch wii 0 detuned_state) = Some 32804
   \<and> round (65536 * 24026 * 1 / 48000 :: rat) = 32803
   \<and> samplerate (ansnd_voices edge_state 0) = 95625
   \<and> pitch (ansnd_voices edge_state 0) = Finite (1 / 2)
   \<and> map_option
        (\<lambda>t. (relative_frequency_of (ansnd_dsp_dram_image t 0),
              dsp_no_resample (ansnd_dsp_dram_image t 0)))
        (ansnd_update_voice_pitch wii 0 edge_state) = Some (65280, False)
   \<and> round (65536 * 95625 * (1 / 2) / 48000 :: rat) = 65280
   \<and> (65536 :: int) - 65280 = 256"
proof -
  have r1: "(32804 :: u32)
       = word_of_int
           (lrintf (f32_mul (f32_of_u32 0x00010000)
                      (f32_div
                         (f32_mul (f32_of_u32 (samplerate (ansnd_voices detuned_state 0)))
                            (pitch (ansnd_voices detuned_state 0)))
                         (dsp_frequency wii detuned_state))))"
    by (simp add: wii_frequency raw_24026 del: f32_mul.simps f32_div.simps)
  have r2: "(0xFF00 :: u32)
       = word_of_int
           (lrintf (f32_mul (f32_of_u32 0x00010000)
                      (f32_div
                         (f32_mul (f32_of_u32 (samplerate (ansnd_voices edge_state 0)))
                            (pitch (ansnd_voices edge_state 0)))
                         (dsp_frequency wii edge_state))))"
    by (simp add: wii_frequency raw_95625 del: f32_mul.simps f32_div.simps)
  have a: "map_option (\<lambda>t. relative_frequency_of (ansnd_dsp_dram_image t 0))
        (ansnd_update_voice_pitch wii 0 detuned_state) = Some 32804"
    using relative_frequency_fields [OF detuned_proj(4) r1] by auto
  have b: "map_option
        (\<lambda>t. (relative_frequency_of (ansnd_dsp_dram_image t 0),
              dsp_no_resample (ansnd_dsp_dram_image t 0)))
        (ansnd_update_voice_pitch wii 0 edge_state) = Some (65280, False)"
    using relative_frequency_fields [OF edge_proj(4) r2] by auto
  have c: "round (65536 * 24026 * 1 / 48000 :: rat) = 32803"
    "round (65536 * 95625 * (1 / 2) / 48000 :: rat) = 65280"
    by code_simp+
  show ?thesis
    using a b c by simp
qed

end
